theory Spec2Isabelle
  imports Main
begin

section \<open>Control-plane messages and the worker runtime\<close>

text \<open>
  The log levels of the logger package that the thread package passes around
  (\<^verbatim>\<open>LogLevel.DEBUG\<close>, \<^verbatim>\<open>LogLevel.INFO\<close>, ...).
\<close>

datatype LogLevel = DEBUG | INFO | NOTICE | WARN | ERROR | FATAL

text \<open>
  \<^verbatim>\<open>ParentPortMessage\<close>: the object literals that worker.ts and the worker scripts hand to
  \<^verbatim>\<open>parentPort.postMessage\<close>. The arguments are, in order,
  \<^verbatim>\<open>threadId\<close>, \<^verbatim>\<open>threadName\<close> and then \<^verbatim>\<open>success\<close> (init, exit) or
  \<^verbatim>\<open>logName\<close>, \<^verbatim>\<open>logLevel\<close>, \<^verbatim>\<open>message\<close> (log; \<^verbatim>\<open>logName\<close> is
  \<^verbatim>\<open>string | undefined\<close>).
\<close>

datatype ParentPortMessage =
    Init nat string bool
  | Exit nat string bool
  | Log nat string "string option" LogLevel string

text \<open>
  What a JavaScript \<^verbatim>\<open>throw\<close> carries: \<^verbatim>\<open>new Error(message)\<close>, or the
  \<^verbatim>\<open>TypeError\<close> that the runtime raises when a property of \<^verbatim>\<open>null\<close> or
  \<^verbatim>\<open>undefined\<close> is read.
\<close>

datatype js_error = JsError string | JsTypeError string

text \<open>
  The values that worker.ts imports from \<^verbatim>\<open>node:worker_threads\<close> together with the four
  command-line switches that \<^verbatim>\<open>hasParameter\<close> looks up. \<^verbatim>\<open>parentPort\<close> is only ever
  tested for presence and used to post, so it is a flag; \<^verbatim>\<open>workerData\<close> is
  \<^verbatim>\<open>null\<close> on the main thread and the object given at spawn time in a worker.
\<close>

record worker_data =
  threadName :: string

record runtime =
  isMainThread :: bool
  parentPort :: bool
  threadId :: nat
  workerData :: "worker_data option"
  debugParam :: bool
  verboseParam :: bool
  debugWorkerParam :: bool
  verboseWorkerParam :: bool

definition debug :: "runtime \<Rightarrow> bool" where
  "debug rt = (debugParam rt \<or> verboseParam rt \<or> debugWorkerParam rt \<or> verboseWorkerParam rt)"

definition verbose :: "runtime \<Rightarrow> bool" where
  "verbose rt = (verboseParam rt \<or> verboseWorkerParam rt)"

text \<open>
  The data-plane envelope (\<^verbatim>\<open>type\<close>, \<^verbatim>\<open>src\<close>, \<^verbatim>\<open>dst\<close>, \<^verbatim>\<open>id\<close>, \<^verbatim>\<open>params\<close>,
  \<^verbatim>\<open>result\<close>, \<^verbatim>\<open>success\<close>); an absent optional field is \<open>None\<close>.
\<close>

record 'p envelope =
  etype :: string
  src :: string
  dst :: string
  eid :: "nat option"
  params :: "'p option"
  result :: "'p option"
  success :: "bool option"

text \<open>
  \<^verbatim>\<open>SharedMatterbridge\<close>, of which the worker scripts read one field.
\<close>

record shared =
  mdnsInterface :: "string option"

subsection \<open>Effects and the sequencing of statements\<close>

text \<open>
  Everything the thread package does to the outside world, in the order it happens:
  \<^item> \<open>PostMessage m\<close>: \<^verbatim>\<open>parentPort.postMessage(m)\<close>;
  \<^item> \<open>ModuleDebug n i m\<close>: the \<^verbatim>\<open>log.debug\<close> line of worker.ts that reports, for worker
    \<open>n:i\<close>, that \<open>m\<close> was sent to the parent;
  \<^item> \<open>LocalLog n l s\<close>: \<^verbatim>\<open>AnsiLogger.create({ logName: n, ... }).log(l, s)\<close>;
  \<^item> \<open>BusCreate c\<close>, \<open>BusFetch e t\<close>, \<open>BusRequest e\<close>, \<open>BusClose\<close>: the constructor and the
    methods of \<^verbatim>\<open>BroadcastServer\<close> that the scripts call;
  \<^item> \<open>WorkerInfo b\<close>: the call \<^verbatim>\<open>logWorkerInfo(log, b)\<close>;
  \<^item> \<open>InspectError s e\<close>: the call \<^verbatim>\<open>inspectError(log, s, e)\<close>;
  \<^item> \<open>CallGetGlobalNodeModules\<close>, \<open>CallCheckUpdates d\<close>, \<open>CallNetworkInterfaces\<close>: the calls
    into the collaborators of the three scripts;
  \<^item> \<open>CreatingWorker n u\<close>: the \<^verbatim>\<open>log.debug\<close> line of \<^verbatim>\<open>createESMWorker\<close> for the
    worker \<open>n\<close> and the file URL \<open>u\<close>.
\<close>

datatype effect =
    PostMessage ParentPortMessage
  | ModuleDebug string nat ParentPortMessage
  | LocalLog string LogLevel string
  | BusCreate string
  | BusFetch "string envelope" nat
  | BusRequest "string envelope"
  | BusClose
  | WorkerInfo bool
  | InspectError string js_error
  | CallGetGlobalNodeModules
  | CallCheckUpdates shared
  | CallNetworkInterfaces
  | CreatingWorker string string

text \<open>
  A run of a piece of code is its completion (\<open>Inl e\<close>: it threw \<open>e\<close>; \<open>Inr v\<close>: it
  returned \<open>v\<close>) together with the effects it had up to that point, oldest first.
\<close>

type_synonym 'a prog = "(js_error + 'a) \<times> effect list"

definition emit :: "effect \<Rightarrow> unit prog" where
  "emit e = (Inr (), [e])"

definition throw :: "js_error \<Rightarrow> 'a prog" where
  "throw e = (Inl e, [])"

definition return :: "'a \<Rightarrow> 'a prog" where
  "return v = (Inr v, [])"

definition await :: "js_error + 'a \<Rightarrow> 'a prog" where
  "await r = (r, [])"

text \<open>\<open>and_then m f\<close>: run \<open>m\<close>; if it threw, stop with what it did; otherwise go on with \<open>f\<close>.\<close>

definition and_then :: "'a prog \<Rightarrow> ('a \<Rightarrow> 'b prog) \<Rightarrow> 'b prog" where
  "and_then m f =
     (case m of
        (Inl e, tr) \<Rightarrow> (Inl e, tr)
      | (Inr v, tr) \<Rightarrow> (case f v of (r, tr') \<Rightarrow> (r, tr @ tr')))"

definition then_do :: "unit prog \<Rightarrow> 'b prog \<Rightarrow> 'b prog" where
  "then_do m k = and_then m (\<lambda>_. k)"

text \<open>\<^verbatim>\<open>try { m } catch (error) { h(error) }\<close>\<close>

definition try_catch :: "'a prog \<Rightarrow> (js_error \<Rightarrow> 'a prog) \<Rightarrow> 'a prog" where
  "try_catch m h =
     (case m of
        (Inl e, tr) \<Rightarrow> (case h e of (r, tr') \<Rightarrow> (r, tr @ tr'))
      | (Inr v, tr) \<Rightarrow> (Inr v, tr))"

text \<open>The messages, in order, that a run handed to \<^verbatim>\<open>parentPort.postMessage\<close>.\<close>

fun posted :: "effect list \<Rightarrow> ParentPortMessage list" where
  "posted [] = []"
| "posted (PostMessage m # tr) = m # posted tr"
| "posted (_ # tr) = posted tr"

section \<open>worker.ts\<close>

text \<open>
  The expression \<^verbatim>\<open>workerData.threadName\<close>: reading a property of \<^verbatim>\<open>null\<close> or of
  \<^verbatim>\<open>undefined\<close> throws a \<^verbatim>\<open>TypeError\<close>; the two are one absent value here, and the
  text kept for the error is that of \<^verbatim>\<open>null\<close>.
\<close>

definition workerData_threadName :: "runtime \<Rightarrow> string prog" where
  "workerData_threadName rt =
     (case workerData rt of
        None \<Rightarrow> throw (JsTypeError ''Cannot read properties of null (reading 'threadName')'')
      | Some wd \<Rightarrow> return (threadName wd))"

text \<open>\<^verbatim>\<open>new Error(`WorkerServer ${n}: parentPort is not available.`)\<close>\<close>

definition link_unavailable :: "string \<Rightarrow> js_error" where
  "link_unavailable n = JsError (''WorkerServer '' @ n @ '': parentPort is not available.'')"

text \<open>
  \<^verbatim>\<open>
  export function parentPost(message: ParentPortMessage): void {
    if (!parentPort) throw new Error(`WorkerServer ${workerData.threadName}: parentPort is not available.`);
    parentPort.postMessage(message);
    if (debug) log.debug(`Worker ${workerData.threadName}:${threadId} sent message to parent: ...`);
  }
  \<close>
  The template of the error message is evaluated before the error is built.
\<close>

definition parentPost :: "runtime \<Rightarrow> ParentPortMessage \<Rightarrow> unit prog" where
  "parentPost rt message =
     (if \<not> parentPort rt then
        and_then (workerData_threadName rt) (\<lambda>n. throw (link_unavailable n))
      else
        then_do (emit (PostMessage message))
          (if debug rt then
             and_then (workerData_threadName rt) (\<lambda>n. emit (ModuleDebug n (threadId rt) message))
           else return ()))"

text \<open>
  \<^verbatim>\<open>
  export function parentLog(logName: string | undefined, logLevel: LogLevel, message: string): void {
    if (!parentPort) throw new Error(`WorkerServer ${workerData.threadName}: parentPort is not available.`);
    const logMessage: ParentPortMessage = { type: 'log', threadId, threadName: workerData.threadName, logName, logLevel, message };
    parentPort.postMessage(logMessage);
    if (debug) log.debug(`Worker ${workerData.threadName}:${threadId} sent log to parent: ...`);
  }
  \<close>
\<close>

definition parentLog :: "runtime \<Rightarrow> string option \<Rightarrow> LogLevel \<Rightarrow> string \<Rightarrow> unit prog" where
  "parentLog rt logName logLevel message =
     (if \<not> parentPort rt then
        and_then (workerData_threadName rt) (\<lambda>n. throw (link_unavailable n))
      else
        and_then (workerData_threadName rt) (\<lambda>n.
          then_do (emit (PostMessage (Log (threadId rt) n logName logLevel message)))
            (if debug rt then
               and_then (workerData_threadName rt) (\<lambda>n'.
                 emit (ModuleDebug n' (threadId rt) (Log (threadId rt) n logName logLevel message)))
             else return ())))"

text \<open>
  \<^verbatim>\<open>
  export function threadLogger(threadName: string, level: LogLevel, message: string): void {
    AnsiLogger.create({ logName: threadName, ..., logLevel: level }).log(level, message);
    if (!isMainThread && parentPort) parentLog(threadName, level, message);
  }
  \<close>
\<close>

definition threadLogger :: "runtime \<Rightarrow> string \<Rightarrow> LogLevel \<Rightarrow> string \<Rightarrow> unit prog" where
  "threadLogger rt tname level message =
     then_do (emit (LocalLog tname level message))
       (if \<not> isMainThread rt \<and> parentPort rt then parentLog rt (Some tname) level message
        else return ())"

text \<open>
  The guard \<^verbatim>\<open>!isMainThread && parentPort\<close> that threadLogger and the worker scripts
  share: the code runs in a worker and its control-plane link is there.
\<close>

definition link_active :: "runtime \<Rightarrow> bool" where
  "link_active rt = (\<not> isMainThread rt \<and> parentPort rt)"

text \<open>
  The values that may go into \<^verbatim>\<open>workerData\<close>
  (\<^verbatim>\<open>Record<string, boolean | number | string | object>\<close>), the part of \<^verbatim>\<open>process\<close> that
  \<^verbatim>\<open>createESMWorker\<close> reads, and the options object it builds.
\<close>

datatype js_value = VBool bool | VNum int | VStr string | VObj "(string \<times> js_value) list"

record process =
  proc_argv :: "string list"
  proc_env :: "string \<rightharpoonup> string"

record WorkerOptions =
  opt_workerData :: "string \<rightharpoonup> js_value"
  opt_type :: string
  opt_name :: string
  opt_argv :: "string list"
  opt_env :: "string \<rightharpoonup> string"
  opt_execArgv :: "string list option"
  opt_stdout :: bool
  opt_stderr :: bool

record Worker =
  fileURL :: string
  options :: WorkerOptions

text \<open>
  \<^verbatim>\<open>
  export function createESMWorker(name, relativePath, workerData?, argv?, env?, execArgv?,
                                  pipedOutput: boolean = false): Worker {
    const fileURL = pathToFileURL(resolve(relativePath));
    const options = {
      workerData: { ...workerData, threadName: name },
      type: 'module',
      name,
      argv: argv ?? process.argv.slice(2),
      env: env ?? process.env,
      execArgv,
      stdout: pipedOutput,
      stderr: pipedOutput,
    };
    if (verbose) log.debug(`Creating ESM Worker ${name} with file URL: ${fileURL.href} and options: ...`);
    return new Worker(fileURL, options);
  }
  \<close>
  An omitted optional parameter is \<open>None\<close>. The parameter \<open>toFileURL\<close> stands for
  \<^verbatim>\<open>pathToFileURL(resolve(relativePath)).href\<close>. Spreading \<^verbatim>\<open>undefined\<close> gives no
  property; a property \<^verbatim>\<open>threadName\<close> of the data is overwritten.
\<close>

definition createESMWorker ::
  "runtime \<Rightarrow> process \<Rightarrow> (string \<Rightarrow> string) \<Rightarrow> string \<Rightarrow> string \<Rightarrow> (string \<rightharpoonup> js_value) option
     \<Rightarrow> string list option \<Rightarrow> (string \<rightharpoonup> string) option \<Rightarrow> string list option \<Rightarrow> bool option
     \<Rightarrow> Worker prog" where
  "createESMWorker rt proc toFileURL name relativePath data argv env execArgv pipedOutputArg =
     (let pipedOutput = (case pipedOutputArg of None \<Rightarrow> False | Some b \<Rightarrow> b);
          url = toFileURL relativePath;
          opts = \<lparr> opt_workerData =
                     (case data of None \<Rightarrow> Map.empty | Some d \<Rightarrow> d)(''threadName'' \<mapsto> VStr name),
                   opt_type = ''module'',
                   opt_name = name,
                   opt_argv = (case argv of None \<Rightarrow> drop 2 (proc_argv proc) | Some a \<Rightarrow> a),
                   opt_env = (case env of None \<Rightarrow> proc_env proc | Some e \<Rightarrow> e),
                   opt_execArgv = execArgv,
                   opt_stdout = pipedOutput,
                   opt_stderr = pipedOutput \<rparr>
      in then_do (if verbose rt then emit (CreatingWorker name url) else return ())
           (return \<lparr> fileURL = url, options = opts \<rparr>))"

section \<open>The worker scripts\<close>

text \<open>Template literals print a number in decimal and a boolean as a word.\<close>

fun string_of_nat :: "nat \<Rightarrow> string" where
  "string_of_nat n =
     (if n < 10 then [''0123456789'' ! n]
      else string_of_nat (n div 10) @ [''0123456789'' ! (n mod 10)])"

declare string_of_nat.simps [simp del]

definition string_of_bool :: "bool \<Rightarrow> string" where
  "string_of_bool b = (if b then ''true'' else ''false'')"

text \<open>
  The three scripts open with the same block (only \<^verbatim>\<open>name\<close> differs):
  \<^verbatim>\<open>
  if (!isMainThread && parentPort) {
    parentPost({ type: 'init', threadId, threadName: workerData.threadName, success: true });
    if (debug) parentLog(name, LogLevel.INFO, `Worker ${workerData.threadName}:${threadId} initialized.`);
  }
  \<close>
\<close>

definition initBlock :: "runtime \<Rightarrow> string \<Rightarrow> unit prog" where
  "initBlock rt name =
     (if \<not> isMainThread rt \<and> parentPort rt then
        and_then (workerData_threadName rt) (\<lambda>n.
          then_do (parentPost rt (Init (threadId rt) n True))
            (if debug rt then
               and_then (workerData_threadName rt) (\<lambda>n'.
                 parentLog rt (Some name) INFO
                   (''Worker '' @ n' @ '':'' @ string_of_nat (threadId rt) @ '' initialized.''))
             else return ()))
      else return ())"

text \<open>
  and close with the same block:
  \<^verbatim>\<open>
  if (!isMainThread && parentPort) {
    parentPost({ type: 'exit', threadId, threadName: workerData.threadName, success });
    if (debug) parentLog(name, LogLevel.INFO, `Worker ${workerData.threadName}:${threadId} exiting with success: ${success}.`);
  }
  \<close>
\<close>

definition exitBlock :: "runtime \<Rightarrow> string \<Rightarrow> bool \<Rightarrow> unit prog" where
  "exitBlock rt name ok =
     (if \<not> isMainThread rt \<and> parentPort rt then
        and_then (workerData_threadName rt) (\<lambda>n.
          then_do (parentPost rt (Exit (threadId rt) n ok))
            (if debug rt then
               and_then (workerData_threadName rt) (\<lambda>n'.
                 parentLog rt (Some name) INFO
                   (''Worker '' @ n' @ '':'' @ string_of_nat (threadId rt)
                      @ '' exiting with success: '' @ string_of_bool ok @ ''.''))
             else return ()))
      else return ())"

text \<open>
  Between the two blocks every script creates its \<^verbatim>\<open>BroadcastServer\<close>, logs the worker
  information when verbose, runs its task inside \<^verbatim>\<open>try\<close>/\<^verbatim>\<open>catch\<close> and closes the
  server. The variable \<^verbatim>\<open>success\<close> starts \<^verbatim>\<open>false\<close> and is set to \<^verbatim>\<open>true\<close> by
  the last statement of the \<^verbatim>\<open>try\<close> block, so it is the value of the
  \<^verbatim>\<open>try\<close>/\<^verbatim>\<open>catch\<close>: \<open>True\<close> from the body, \<open>False\<close> from the handler. The handler is
  \<^verbatim>\<open>
  const errorMessage = inspectError(log, text, error);
  threadLogger(name, LogLevel.ERROR, errorMessage);
  \<close>
  where \<^verbatim>\<open>inspectError\<close> belongs to the utilities package; the string it returns for a text
  and an error is the parameter \<open>inspectError\<close> of each script.
\<close>

definition catchBlock ::
  "runtime \<Rightarrow> (string \<Rightarrow> js_error \<Rightarrow> string) \<Rightarrow> string \<Rightarrow> string \<Rightarrow> js_error \<Rightarrow> bool prog" where
  "catchBlock rt inspectError name text error =
     then_do (emit (InspectError text error))
       (then_do (threadLogger rt name ERROR (inspectError text error))
          (return False))"

definition fetchShared :: "string envelope" where
  "fetchShared = \<lparr> etype = ''matterbridge_shared'', src = ''matterbridge'', dst = ''matterbridge'',
      eid = None, params = None, result = None, success = None \<rparr>"

subsection \<open>workerGlobalPrefix.ts\<close>

text \<open>
  \<^verbatim>\<open>
  threadLogger(name, LogLevel.INFO, `Starting global prefix check...`);
  let success = false;
  try {
    prefix = await getGlobalNodeModules();
    server.request({ type: 'matterbridge_global_prefix', src: `matterbridge`, dst: 'matterbridge', params: { prefix } });
    threadLogger(name, LogLevel.INFO, `Global node_modules directory: ${prefix}`);
    success = true;
  } catch (error) { ... }
  server.close();
  \<close>
  The parameter \<open>getGlobalNodeModules\<close> is how the awaited call ended.
\<close>

definition globalPrefixTask :: "runtime \<Rightarrow> js_error + string \<Rightarrow> bool prog" where
  "globalPrefixTask rt getGlobalNodeModules =
     and_then (then_do (emit CallGetGlobalNodeModules) (await getGlobalNodeModules)) (\<lambda>prefix.
     then_do (emit (BusRequest \<lparr> etype = ''matterbridge_global_prefix'', src = ''matterbridge'',
                dst = ''matterbridge'', eid = None, params = Some prefix, result = None,
                success = None \<rparr>))
    (then_do (threadLogger rt ''MatterbridgeGlobalPrefix'' INFO
                (''Global node_modules directory: '' @ prefix))
    (return True)))"

definition workerGlobalPrefix ::
  "runtime \<Rightarrow> (string \<Rightarrow> js_error \<Rightarrow> string) \<Rightarrow> js_error + string \<Rightarrow> unit prog" where
  "workerGlobalPrefix rt inspectError getGlobalNodeModules =
     then_do (initBlock rt ''MatterbridgeGlobalPrefix'')
    (then_do (emit (BusCreate ''matterbridge''))
    (then_do (if verbose rt then emit (WorkerInfo (verbose rt)) else return ())
    (then_do (threadLogger rt ''MatterbridgeGlobalPrefix'' INFO ''Starting global prefix check...'')
    (and_then
       (try_catch (globalPrefixTask rt getGlobalNodeModules)
          (catchBlock rt inspectError ''MatterbridgeGlobalPrefix'' ''Failed to get global node modules''))
       (\<lambda>ok.
     then_do (emit BusClose)
       (exitBlock rt ''MatterbridgeGlobalPrefix'' ok))))))"

subsection \<open>workerCheckUpdates.ts\<close>

text \<open>
  \<^verbatim>\<open>
  threadLogger(name, LogLevel.INFO, `Starting check updates...`);
  let success = false;
  try {
    const shared = (await server.fetch({ type: 'matterbridge_shared', src: `matterbridge`, dst: 'matterbridge' }, 1000)).result.data;
    await checkUpdates(shared);
    threadLogger(name, LogLevel.INFO, `Check updates succeeded`);
    success = true;
  } catch (error) { ... }
  server.close();
  \<close>
  The parameter \<open>fetched\<close> is how the awaited fetch ended (rejected, or the data of its
  result), and \<open>checkUpdates\<close> how the awaited call ends for the data it is given.
\<close>

definition checkUpdatesTask ::
  "runtime \<Rightarrow> js_error + shared \<Rightarrow> (shared \<Rightarrow> js_error + unit) \<Rightarrow> bool prog" where
  "checkUpdatesTask rt fetched checkUpdates =
     and_then (then_do (emit (BusFetch fetchShared 1000)) (await fetched)) (\<lambda>sh.
     then_do (then_do (emit (CallCheckUpdates sh)) (await (checkUpdates sh)))
    (then_do (threadLogger rt ''MatterbridgeCheckUpdates'' INFO ''Check updates succeeded'')
    (return True)))"

definition workerCheckUpdates ::
  "runtime \<Rightarrow> (string \<Rightarrow> js_error \<Rightarrow> string) \<Rightarrow> js_error + shared \<Rightarrow> (shared \<Rightarrow> js_error + unit)
     \<Rightarrow> unit prog" where
  "workerCheckUpdates rt inspectError fetched checkUpdates =
     then_do (initBlock rt ''MatterbridgeCheckUpdates'')
    (then_do (emit (BusCreate ''matterbridge''))
    (then_do (if verbose rt then emit (WorkerInfo (verbose rt)) else return ())
    (then_do (threadLogger rt ''MatterbridgeCheckUpdates'' INFO ''Starting check updates...'')
    (and_then
       (try_catch (checkUpdatesTask rt fetched checkUpdates)
          (catchBlock rt inspectError ''MatterbridgeCheckUpdates'' ''Failed to check updates''))
       (\<lambda>ok.
     then_do (emit BusClose)
       (exitBlock rt ''MatterbridgeCheckUpdates'' ok))))))"

subsection \<open>workerSystemCheck.ts\<close>

text \<open>
  What the script reads from its surroundings: how the awaited fetch ended, the two
  \<^verbatim>\<open>NVM\<close> variables of \<^verbatim>\<open>process.env\<close>, the three numbers that \<^verbatim>\<open>parseInt\<close> takes out
  of \<^verbatim>\<open>process.versions.node\<close> (always \<^verbatim>\<open>major.minor.patch\<close>), how
  \<^verbatim>\<open>os.networkInterfaces()\<close> ended (it throws when the system call fails; otherwise the entries
  of the object it returns, each a name and its details or \<^verbatim>\<open>undefined\<close>), and
  \<^verbatim>\<open>excludedInterfaceNamePattern.test\<close> of the utilities package.
\<close>

record iface_detail =
  internal :: bool
  family :: string

record system_check_input =
  fetched :: "js_error + shared"
  NVM_BIN :: "string option"
  NVM_DIR :: "string option"
  versionMajor :: nat
  versionMinor :: nat
  versionPatch :: nat
  networkInterfaces :: "js_error + (string \<times> iface_detail list option) list"
  excluded :: "string \<Rightarrow> bool"

text \<open>A string or \<^verbatim>\<open>undefined\<close> in a condition: only a non-empty string counts as true.\<close>

definition truthy :: "string option \<Rightarrow> bool" where
  "truthy v = (case v of None \<Rightarrow> False | Some s \<Rightarrow> s \<noteq> [])"

record found =
  foundInternal :: bool
  foundExternal :: bool
  foundIpv4 :: bool
  foundIpv6 :: bool

text \<open>
  \<^verbatim>\<open>
  for (const detail of interfaceDetails || []) {
    if (detail.internal) foundInternal = true;
    if (!detail.internal) foundExternal = true;
    if (detail.family === 'IPv4' && !detail.internal && foundIpv4 === false) foundIpv4 = true;
    if (detail.family === 'IPv6' && !detail.internal && foundIpv6 === false) foundIpv6 = true;
  }
  \<close>
\<close>

fun scanDetails :: "found \<Rightarrow> iface_detail list \<Rightarrow> found" where
  "scanDetails f [] = f"
| "scanDetails f (detail # rest) =
     scanDetails
       \<lparr> foundInternal = (if internal detail then True else foundInternal f),
         foundExternal = (if \<not> internal detail then True else foundExternal f),
         foundIpv4 = (if family detail = ''IPv4'' \<and> \<not> internal detail \<and> foundIpv4 f = False
                      then True else foundIpv4 f),
         foundIpv6 = (if family detail = ''IPv6'' \<and> \<not> internal detail \<and> foundIpv6 f = False
                      then True else foundIpv6 f) \<rparr>
       rest"

text \<open>
  \<^verbatim>\<open>
  for (const [interfaceName, interfaceDetails] of Object.entries(networkInterfaces)) {
    if (!shared.mdnsInterface && excludedInterfaceNamePattern.test(interfaceName))
      threadLogger(name, LogLevel.WARN, `Found network interface '${interfaceName}'. Please use ...`);
    if (excludedInterfaceNamePattern.test(interfaceName)) continue;
    for (const detail of interfaceDetails || []) { ... }
  }
  \<close>
\<close>

fun scanInterfaces ::
  "runtime \<Rightarrow> shared \<Rightarrow> (string \<Rightarrow> bool) \<Rightarrow> found \<Rightarrow> (string \<times> iface_detail list option) list
     \<Rightarrow> found prog" where
  "scanInterfaces rt sh excl f [] = return f"
| "scanInterfaces rt sh excl f ((interfaceName, interfaceDetails) # rest) =
     then_do
       (if \<not> truthy (mdnsInterface sh) \<and> excl interfaceName then
          threadLogger rt ''MatterbridgeSystemCheck'' WARN
            (''Found network interface '' @ [CHR 0x27] @ interfaceName @ [CHR 0x27]
               @ ''. Please use --mdnsinterface parameter to specify the correct local interface for mDNS.'')
        else return ())
       (if excl interfaceName then scanInterfaces rt sh excl f rest
        else scanInterfaces rt sh excl
               (scanDetails f (case interfaceDetails of None \<Rightarrow> [] | Some ds \<Rightarrow> ds)) rest)"

definition versionText :: "system_check_input \<Rightarrow> string" where
  "versionText inp =
     string_of_nat (versionMajor inp) @ ''.'' @ string_of_nat (versionMinor inp) @ ''.''
       @ string_of_nat (versionPatch inp)"

text \<open>The statements of the \<^verbatim>\<open>try\<close> block, in the order of the source.\<close>

definition systemCheckTask :: "runtime \<Rightarrow> system_check_input \<Rightarrow> bool prog" where
  "systemCheckTask rt inp =
     and_then (then_do (emit (BusFetch fetchShared 1000)) (await (fetched inp))) (\<lambda>sh.
     then_do (if truthy (NVM_BIN inp) \<and> truthy (NVM_DIR inp) then
                threadLogger rt ''MatterbridgeSystemCheck'' ERROR
                  ''NVM is a development tool and is not supported in production. Please install node from https://github.com/nodesource/distributions.''
              else return ())
    (then_do (threadLogger rt ''MatterbridgeSystemCheck'' DEBUG (''Node.js Version: '' @ versionText inp))
    (then_do (if versionMajor inp = 20 \<and> versionMinor inp < 19 then
                threadLogger rt ''MatterbridgeSystemCheck'' ERROR
                  ''Node.js version < 20.19.0 is not supported. Please upgrade to Node.js LTS version (24.x).''
              else return ())
    (then_do (if versionMajor inp = 22 \<and> versionMinor inp < 13 then
                threadLogger rt ''MatterbridgeSystemCheck'' ERROR
                  ''Node.js version < 22.13.0 is not supported. Please upgrade to Node.js LTS version (24.x).''
              else return ())
    (then_do (if versionMajor inp = 21 \<or> versionMajor inp = 23 \<or> versionMajor inp = 25 then
                threadLogger rt ''MatterbridgeSystemCheck'' ERROR
                  ''Node.js odd major versions are not supported. Please upgrade to Node.js LTS version (24.x).''
              else return ())
    (then_do (if versionMajor inp \<noteq> 24 then
                threadLogger rt ''MatterbridgeSystemCheck'' NOTICE
                  (''You are running Node.js '' @ versionText inp
                     @ ''. Please consider upgrading to Node.js LTS version (24.x).'')
              else return ())
    (and_then (then_do (emit CallNetworkInterfaces) (await (networkInterfaces inp))) (\<lambda>ifaces.
     and_then (scanInterfaces rt sh (excluded inp)
                 \<lparr> foundInternal = False, foundExternal = False, foundIpv4 = False, foundIpv6 = False \<rparr>
                 ifaces) (\<lambda>f.
     then_do (if \<not> foundInternal f then
                threadLogger rt ''MatterbridgeSystemCheck'' ERROR
                  ''No internal network interface found. Check your network configuration.''
              else return ())
    (then_do (if \<not> foundExternal f then
                threadLogger rt ''MatterbridgeSystemCheck'' ERROR
                  ''No external network interface found. Check your network configuration.''
              else return ())
    (then_do (if \<not> foundIpv4 f then
                threadLogger rt ''MatterbridgeSystemCheck'' ERROR
                  ''No IPv4 network interface found. Check your network configuration.''
              else return ())
    (then_do (if \<not> foundIpv6 f then
                threadLogger rt ''MatterbridgeSystemCheck'' ERROR
                  ''No IPv6 network interface found. Check your network configuration.''
              else return ())
    (then_do (threadLogger rt ''MatterbridgeSystemCheck'' INFO ''System check succeeded'')
    (return True))))))))))))))"

definition workerSystemCheck ::
  "runtime \<Rightarrow> (string \<Rightarrow> js_error \<Rightarrow> string) \<Rightarrow> system_check_input \<Rightarrow> unit prog" where
  "workerSystemCheck rt inspectError inp =
     then_do (initBlock rt ''MatterbridgeSystemCheck'')
    (then_do (emit (BusCreate ''matterbridge''))
    (then_do (if verbose rt then emit (WorkerInfo (verbose rt)) else return ())
    (then_do (threadLogger rt ''MatterbridgeSystemCheck'' INFO ''Starting system check...'')
    (and_then
       (try_catch (systemCheckTask rt inp)
          (catchBlock rt inspectError ''MatterbridgeSystemCheck'' ''Failed to perform system check''))
       (\<lambda>ok.
     then_do (emit BusClose)
       (exitBlock rt ''MatterbridgeSystemCheck'' ok))))))"

section \<open>Runtimes used as examples\<close>

text \<open>
  The main thread: no control-plane link and \<^verbatim>\<open>workerData\<close> is \<^verbatim>\<open>null\<close>.
\<close>

definition mainThread :: runtime where
  "mainThread = \<lparr> isMainThread = True, parentPort = False, threadId = 0, workerData = None,
      debugParam = False, verboseParam = False, debugWorkerParam = False,
      verboseWorkerParam = False \<rparr>"

text \<open>A worker spawned under the name \<open>n\<close> with thread id \<open>i\<close>; \<open>d\<close> is the debug switch.\<close>

definition workerThread :: "string \<Rightarrow> nat \<Rightarrow> bool \<Rightarrow> runtime" where
  "workerThread n i d = \<lparr> isMainThread = False, parentPort = True, threadId = i,
      workerData = Some \<lparr> threadName = n \<rparr>,
      debugParam = d, verboseParam = False, debugWorkerParam = False,
      verboseWorkerParam = False \<rparr>"


text \<open>
  The stand-in for \<^verbatim>\<open>inspectError\<close> that the tests of the three scripts use
  (\<^verbatim>\<open>jest.fn(() => 'inspected error')\<close>).
\<close>

definition inspected :: "string \<Rightarrow> js_error \<Rightarrow> string" where
  "inspected text error = ''inspected error''"

section \<open>Reading a trace\<close>

fun is_init :: "ParentPortMessage \<Rightarrow> bool" where
  "is_init (Init _ _ _) = True"
| "is_init _ = False"

fun is_exit :: "ParentPortMessage \<Rightarrow> bool" where
  "is_exit (Exit _ _ _) = True"
| "is_exit _ = False"

fun is_log :: "ParentPortMessage \<Rightarrow> bool" where
  "is_log (Log _ _ _ _ _) = True"
| "is_log _ = False"

text \<open>
  The calls of \<^verbatim>\<open>threadLogger\<close> in a run, as (name, level, message): each call writes to
  the local logger once, and nothing else does.
\<close>

fun relayed :: "effect list \<Rightarrow> (string \<times> LogLevel \<times> string) list" where
  "relayed [] = []"
| "relayed (LocalLog n l s # tr) = (n, l, s) # relayed tr"
| "relayed (_ # tr) = relayed tr"

definition at_error_level :: "string \<times> LogLevel \<times> string \<Rightarrow> bool" where
  "at_error_level c = (fst (snd c) = ERROR)"

text \<open>
  The effects of the control plane (a post to the parent and the debug line that reports
  it), and the effects on the bus.
\<close>

fun control_effect :: "effect \<Rightarrow> bool" where
  "control_effect (PostMessage _) = True"
| "control_effect (ModuleDebug _ _ _) = True"
| "control_effect _ = False"

fun bus_effect :: "effect \<Rightarrow> bool" where
  "bus_effect (BusCreate _) = True"
| "bus_effect (BusFetch _ _) = True"
| "bus_effect (BusRequest _) = True"
| "bus_effect BusClose = True"
| "bus_effect _ = False"

text \<open>
  What a task may do between the creation and the closing of the bus: anything but create or
  close the bus or post an init or exit message; and it posts only where there is a link.
\<close>

fun task_effect :: "runtime \<Rightarrow> effect \<Rightarrow> bool" where
  "task_effect rt (PostMessage m) = (link_active rt \<and> is_log m)"
| "task_effect rt (BusCreate _) = False"
| "task_effect rt BusClose = False"
| "task_effect rt _ = True"

text \<open>
  The statements that the three scripts have in common, around a task: the source repeats
  them in each file, with its own name and texts.
\<close>

definition workerScript ::
  "runtime \<Rightarrow> (string \<Rightarrow> js_error \<Rightarrow> string) \<Rightarrow> string \<Rightarrow> string \<Rightarrow> string \<Rightarrow> bool prog \<Rightarrow> unit prog" where
  "workerScript rt inspectError name startText failText task =
     then_do (initBlock rt name)
    (then_do (emit (BusCreate ''matterbridge''))
    (then_do (if verbose rt then emit (WorkerInfo (verbose rt)) else return ())
    (then_do (threadLogger rt name INFO startText)
    (and_then (try_catch task (catchBlock rt inspectError name failText))
       (\<lambda>ok.
     then_do (emit BusClose)
       (exitBlock rt name ok))))))"

text \<open>A piece of code keeps to the task when all of its effects are task effects.\<close>

definition keeps_to_task :: "runtime \<Rightarrow> 'a prog \<Rightarrow> bool" where
  "keeps_to_task rt p = list_all (task_effect rt) (snd p)"

text \<open>The value of \<^verbatim>\<open>success\<close> after the \<^verbatim>\<open>try\<close>/\<^verbatim>\<open>catch\<close> around a task.\<close>

definition task_outcome :: "bool prog \<Rightarrow> bool" where
  "task_outcome task = (case fst task of Inl _ \<Rightarrow> False | Inr v \<Rightarrow> v)"

text \<open>More examples: a check for updates that succeeds, a name pattern that excludes nothing, and
  a host where \<^verbatim>\<open>NVM\<close> is set and the system call behind \<^verbatim>\<open>os.networkInterfaces()\<close>
  fails.\<close>

definition checkUpdatesOk :: "shared \<Rightarrow> js_error + unit" where
  "checkUpdatesOk sh = Inr ()"

definition noneExcluded :: "string \<Rightarrow> bool" where
  "noneExcluded n = False"

definition brokenNetwork :: system_check_input where
  "brokenNetwork = \<lparr> fetched = Inr \<lparr> mdnsInterface = None \<rparr>,
      NVM_BIN = Some ''/fake/nvm/bin'', NVM_DIR = Some ''/fake/nvm/dir'',
      versionMajor = 24, versionMinor = 13, versionPatch = 0,
      networkInterfaces = Inl (JsError ''uv_interface_addresses returned Unknown system error 13''),
      excluded = noneExcluded \<rparr>"


section \<open>The broadcast bus\<close>

text \<open>
  The class \<^verbatim>\<open>BroadcastServer\<close> (broadcastServer.ts) is not among the sources; only its
  callers and the mocks of the tests are. The definitions of this section follow the
  specification of the bus instead.
\<close>

datatype fetch_error = Timeout

datatype 'p outcome = Resolved "'p envelope" | Rejected fetch_error

text \<open>
  Modelled from the spec: the state of a \<^verbatim>\<open>BroadcastServer\<close>, which is missing from the
  sources. It holds the next fresh correlation id, the envelopes handed to the channel (oldest
  first), the temporary listeners of the pending fetches (each named by the correlation id it
  waits for), the armed timers (correlation id and deadline), the state of the promise of each
  call (\<open>None\<close> while it is pending) and the time in milliseconds.
\<close>

record 'p bus =
  nextId :: nat
  outbox :: "'p envelope list"
  listeners :: "nat list"
  timers :: "(nat \<times> nat) list"
  settled :: "nat \<Rightarrow> 'p outcome option"
  clock :: nat

text \<open>
  Modelled from the spec: \<^verbatim>\<open>open\<close> of the missing \<^verbatim>\<open>BroadcastServer\<close>; a fresh bus.
\<close>

definition open_bus :: "'p bus" where
  "open_bus = \<lparr> nextId = 0, outbox = [], listeners = [], timers = [], settled = (\<lambda>i. None),
      clock = 0 \<rparr>"

text \<open>
  Modelled from the spec: \<^verbatim>\<open>publish\<close> of the missing \<^verbatim>\<open>BroadcastServer\<close>, a one-way
  send that returns once the envelope is handed to the channel.
\<close>

definition publish :: "'p bus \<Rightarrow> 'p envelope \<Rightarrow> 'p bus" where
  "publish b e = b\<lparr> outbox := outbox b @ [e] \<rparr>"

text \<open>
  Modelled from the spec: \<^verbatim>\<open>respond(bus, requestEnvelope, result, success?)\<close> of the missing
  \<^verbatim>\<open>BroadcastServer\<close>. It publishes an envelope that copies \<^verbatim>\<open>type\<close>, \<^verbatim>\<open>src\<close>,
  \<^verbatim>\<open>dst\<close> and \<^verbatim>\<open>id\<close> from the request, with \<^verbatim>\<open>src\<close> and \<^verbatim>\<open>dst\<close> swapped, and
  attaches the result (and \<^verbatim>\<open>success\<close> if given); a response has no \<^verbatim>\<open>params\<close>.
\<close>

definition respond :: "'p bus \<Rightarrow> 'p envelope \<Rightarrow> 'p \<Rightarrow> bool option \<Rightarrow> 'p bus" where
  "respond b requestEnvelope res ok =
     publish b \<lparr> etype = etype requestEnvelope, src = dst requestEnvelope,
                 dst = src requestEnvelope, eid = eid requestEnvelope, params = None,
                 result = Some res, success = ok \<rparr>"

text \<open>
  Modelled from the spec: \<^verbatim>\<open>fetch(bus, envelope, timeoutMs)\<close> of the missing
  \<^verbatim>\<open>BroadcastServer\<close>, up to the point where it starts to wait. It generates a fresh
  correlation id, stamps it onto the envelope, publishes it, registers a temporary listener for
  that id and arms a timer of \<^verbatim>\<open>timeoutMs\<close>. The result is the id and the new bus; the
  promise of the call is \<open>settled\<close> at that id.
\<close>

definition fetch :: "'p bus \<Rightarrow> 'p envelope \<Rightarrow> nat \<Rightarrow> nat \<times> 'p bus" where
  "fetch b e timeoutMs =
     (let i = nextId b in
      (i, (publish b (e\<lparr> eid := Some i \<rparr>))
            \<lparr> nextId := Suc i,
              listeners := listeners b @ [i],
              timers := timers b @ [(i, clock b + timeoutMs)] \<rparr>))"

text \<open>
  The envelope \<open>e\<close> answers the call with correlation id \<open>i\<close>: its id matches and it carries
  a result.
\<close>

definition answers :: "nat \<Rightarrow> 'p envelope \<Rightarrow> bool" where
  "answers i e = (eid e = Some i \<and> result e \<noteq> None)"

text \<open>
  Modelled from the spec: what the temporary listeners of the missing \<^verbatim>\<open>BroadcastServer\<close>
  do when the subscription observes an envelope. Every registered listener that the envelope
  answers resolves its call with it, is unregistered and has its timer cleared.
\<close>

definition observe :: "'p bus \<Rightarrow> 'p envelope \<Rightarrow> 'p bus" where
  "observe b e =
     b\<lparr> listeners := filter (\<lambda>i. \<not> answers i e) (listeners b),
        timers := filter (\<lambda>t. \<not> answers (fst t) e) (timers b),
        settled := (\<lambda>i. if i \<in> set (listeners b) \<and> answers i e then Some (Resolved e)
                          else settled b i) \<rparr>"

text \<open>
  Modelled from the spec: what the timers of the missing \<^verbatim>\<open>BroadcastServer\<close> do when
  \<open>d\<close> milliseconds pass. Every timer whose deadline is reached fires, rejects its call with
  the timeout error and unregisters the listener of the call.
\<close>

definition due :: "'p bus \<Rightarrow> nat \<Rightarrow> nat list" where
  "due b now = map fst (filter (\<lambda>t. snd t \<le> now) (timers b))"

definition elapse :: "'p bus \<Rightarrow> nat \<Rightarrow> 'p bus" where
  "elapse b d =
     b\<lparr> clock := clock b + d,
        listeners := filter (\<lambda>i. i \<notin> set (due b (clock b + d))) (listeners b),
        timers := filter (\<lambda>t. clock b + d < snd t) (timers b),
        settled := (\<lambda>i. if i \<in> set (due b (clock b + d)) then Some (Rejected Timeout)
                          else settled b i) \<rparr>"

text \<open>
  What can happen on a bus (an envelope is observed, time passes, a fetch is called), and a
  bus after a sequence of such events.
\<close>

datatype 'p event = Observe "'p envelope" | Elapse nat | Fetch "'p envelope" nat

fun step :: "'p bus \<Rightarrow> 'p event \<Rightarrow> 'p bus" where
  "step b (Observe e) = observe b e"
| "step b (Elapse d) = elapse b d"
| "step b (Fetch e t) = snd (fetch b e t)"

fun run :: "'p bus \<Rightarrow> 'p event list \<Rightarrow> 'p bus" where
  "run b [] = b"
| "run b (ev # evs) = run (step b ev) evs"

text \<open>
  What the specification promises to the call with correlation id \<open>i\<close> that has \<open>left\<close>
  milliseconds to go, read off the events that follow: it resolves with the first observed
  envelope whose id matches and which carries a result, unless \<open>left\<close> milliseconds have
  passed before, in which case it rejects with the timeout error; while neither has happened
  the call is pending.
\<close>

fun verdict :: "nat \<Rightarrow> nat \<Rightarrow> 'p event list \<Rightarrow> 'p outcome option" where
  "verdict i left [] = None"
| "verdict i left (Observe e # evs) =
     (if answers i e then Some (Resolved e) else verdict i left evs)"
| "verdict i left (Elapse d # evs) =
     (if left \<le> d then Some (Rejected Timeout) else verdict i (left - d) evs)"
| "verdict i left (Fetch e t # evs) = verdict i left evs"

text \<open>Examples: a request, and the answer to the call with correlation id \<open>i\<close>.\<close>

definition sharedRequest :: "string envelope" where
  "sharedRequest = \<lparr> etype = ''matterbridge_shared'', src = ''worker'', dst = ''matterbridge'',
      eid = None, params = Some ''query'', result = None, success = None \<rparr>"

definition sharedAnswer :: "nat \<Rightarrow> string envelope" where
  "sharedAnswer i = \<lparr> etype = ''matterbridge_shared'', src = ''matterbridge'', dst = ''worker'',
      eid = Some i, params = None, result = Some ''data'', success = Some True \<rparr>"

text \<open>
  Three facts about a bus that the operations keep: ids in use are below the next fresh id,
  and no call with an id yet to come is settled. A call is pending with \<open>left\<close> milliseconds
  to go when its listener is registered and its only timer is due at that time; it is finished
  when neither a listener nor a timer of it is left.
\<close>

definition bus_inv :: "'p bus \<Rightarrow> bool" where
  "bus_inv b =
     ((\<forall>i \<in> set (listeners b). i < nextId b)
      \<and> (\<forall>t \<in> set (timers b). fst t < nextId b)
      \<and> (\<forall>i. nextId b \<le> i \<longrightarrow> settled b i = None))"

definition pending :: "'p bus \<Rightarrow> nat \<Rightarrow> nat \<Rightarrow> bool" where
  "pending b i left =
     (i < nextId b \<and> i \<in> set (listeners b) \<and> (i, clock b + left) \<in> set (timers b)
      \<and> (\<forall>t \<in> set (timers b). fst t = i \<longrightarrow> snd t = clock b + left)
      \<and> settled b i = None)"

definition finished :: "'p bus \<Rightarrow> nat \<Rightarrow> bool" where
  "finished b i =
     (i < nextId b \<and> i \<notin> set (listeners b) \<and> (\<forall>t \<in> set (timers b). fst t \<noteq> i))"

text \<open>The milliseconds that pass during a sequence of events.\<close>

fun elapsed :: "'p event list \<Rightarrow> nat" where
  "elapsed [] = 0"
| "elapsed (Elapse d # evs) = d + elapsed evs"
| "elapsed (_ # evs) = elapsed evs"

section \<open>Properties of worker.ts\<close>

lemmas prog_defs = emit_def throw_def return_def await_def and_then_def then_do_def try_catch_def

lemma parentPost_no_link:
  "\<not> parentPort rt \<Longrightarrow> parentPost rt m =
     (case workerData rt of
        None \<Rightarrow> (Inl (JsTypeError ''Cannot read properties of null (reading 'threadName')''), [])
      | Some wd \<Rightarrow> (Inl (link_unavailable (threadName wd)), []))"
  by (simp add: parentPost_def workerData_threadName_def prog_defs split: option.splits)

lemma parentLog_no_link:
  "\<not> parentPort rt \<Longrightarrow> parentLog rt n l s =
     (case workerData rt of
        None \<Rightarrow> (Inl (JsTypeError ''Cannot read properties of null (reading 'threadName')''), [])
      | Some wd \<Rightarrow> (Inl (link_unavailable (threadName wd)), []))"
  by (simp add: parentLog_def workerData_threadName_def prog_defs split: option.splits)

lemma parentPost_linked:
  "parentPort rt \<Longrightarrow> workerData rt = Some wd \<Longrightarrow>
   parentPost rt m =
     (Inr (), PostMessage m # (if debug rt then [ModuleDebug (threadName wd) (threadId rt) m] else []))"
  by (simp add: parentPost_def workerData_threadName_def prog_defs)

lemma parentLog_linked:
  "parentPort rt \<Longrightarrow> workerData rt = Some wd \<Longrightarrow>
   parentLog rt n l s =
     (Inr (), PostMessage (Log (threadId rt) (threadName wd) n l s)
        # (if debug rt
           then [ModuleDebug (threadName wd) (threadId rt) (Log (threadId rt) (threadName wd) n l s)]
           else []))"
  by (simp add: parentLog_def workerData_threadName_def prog_defs)

lemma threadLogger_linked:
  "link_active rt \<Longrightarrow> workerData rt = Some wd \<Longrightarrow>
   threadLogger rt n l s =
     (Inr (), LocalLog n l s # PostMessage (Log (threadId rt) (threadName wd) (Some n) l s)
        # (if debug rt
           then [ModuleDebug (threadName wd) (threadId rt)
                   (Log (threadId rt) (threadName wd) (Some n) l s)]
           else []))"
  by (simp add: threadLogger_def link_active_def parentLog_linked prog_defs)

lemma threadLogger_unlinked:
  "\<not> link_active rt \<Longrightarrow> threadLogger rt n l s = (Inr (), [LocalLog n l s])"
  by (auto simp add: threadLogger_def link_active_def prog_defs)

lemma threadLogger_orphan:
  "link_active rt \<Longrightarrow> workerData rt = None \<Longrightarrow>
   threadLogger rt n l s =
     (Inl (JsTypeError ''Cannot read properties of null (reading 'threadName')''), [LocalLog n l s])"
  by (simp add: threadLogger_def link_active_def parentLog_def workerData_threadName_def prog_defs)

text \<open>
  What \<^verbatim>\<open>threadLogger\<close> does in general. Every call first writes the message to the local
  logger tagged with the thread name, and it never ends in the link-unavailable error of the
  relay, whatever the runtime. Where a worker with a link has its \<^verbatim>\<open>workerData\<close>, it
  returns normally, and it posts exactly one log control message, carrying the worker's thread
  id and thread name and the given name, level and message, if and only if it runs in a worker
  with an active link; otherwise it posts nothing.
\<close>

lemma threadLogger_dual_sink:
  "(\<exists>r tr. threadLogger rt n l s = (r, LocalLog n l s # tr))
   \<and> fst (threadLogger rt n l s) \<noteq> Inl (link_unavailable x)
   \<and> ((link_active rt \<longrightarrow> workerData rt \<noteq> None) \<longrightarrow>
        fst (threadLogger rt n l s) = Inr ()
        \<and> posted (snd (threadLogger rt n l s)) =
            (if link_active rt
             then [Log (threadId rt) (threadName (the (workerData rt))) (Some n) l s]
             else []))"
proof (cases "link_active rt")
  case False
  then show ?thesis by (simp add: threadLogger_unlinked)
next
  case True
  show ?thesis
  proof (cases "workerData rt")
    case None
    with True show ?thesis by (simp add: threadLogger_orphan link_unavailable_def)
  next
    case (Some wd)
    with True show ?thesis by (simp add: threadLogger_linked)
  qed
qed

lemma threadLogger_dual_sink_example:
  "link_active (workerThread ''Forwarder'' 9 False)
   \<and> workerData (workerThread ''Forwarder'' 9 False) \<noteq> None
   \<and> fst (threadLogger (workerThread ''Forwarder'' 9 False) ''T'' INFO ''hi'') = Inr ()
   \<and> posted (snd (threadLogger (workerThread ''Forwarder'' 9 False) ''T'' INFO ''hi''))
       = [Log 9 ''Forwarder'' (Some ''T'') INFO ''hi'']"
  using threadLogger_dual_sink [of "workerThread ''Forwarder'' 9 False" "''T''" INFO "''hi''" "[]"]
  by (simp add: workerThread_def link_active_def)



text \<open>
  Claim C6, on the main thread. There \<^verbatim>\<open>parentPort\<close> and \<^verbatim>\<open>workerData\<close> are both
  \<^verbatim>\<open>null\<close>, and both primitives fail while they build the text of the link-unavailable
  error: what the caller receives is the \<^verbatim>\<open>TypeError\<close> of reading
  \<^verbatim>\<open>workerData.threadName\<close>, not the link-unavailable error.
\<close>

theorem parentPost_parentLog_on_main_thread:
  "parentPost mainThread (Init 0 ''Main'' True)
     = (Inl (JsTypeError ''Cannot read properties of null (reading 'threadName')''), [])
   \<and> parentLog mainThread (Some ''Any'') INFO ''msg''
     = (Inl (JsTypeError ''Cannot read properties of null (reading 'threadName')''), [])
   \<and> parentPost mainThread (Init 0 ''Main'' True) \<noteq> (Inl (link_unavailable x), [])
   \<and> parentLog mainThread (Some ''Any'') INFO ''msg'' \<noteq> (Inl (link_unavailable x), [])"
  by (simp add: parentPost_no_link parentLog_no_link mainThread_def link_unavailable_def)

text \<open>
  What the two primitives do wherever \<^verbatim>\<open>workerData\<close> is there: without a link they fail
  with the link-unavailable error and post nothing; with a link \<^verbatim>\<open>parentPost\<close> posts the
  message as it is and \<^verbatim>\<open>parentLog\<close> posts the log message with the worker's thread id and
  thread name.
\<close>

lemma primitives_with_workerData:
  assumes "workerData rt = Some wd"
  shows "\<not> parentPort rt \<Longrightarrow> parentPost rt m = (Inl (link_unavailable (threadName wd)), [])"
    and "\<not> parentPort rt \<Longrightarrow> parentLog rt n l s = (Inl (link_unavailable (threadName wd)), [])"
    and "parentPort rt \<Longrightarrow> fst (parentPost rt m) = Inr () \<and> posted (snd (parentPost rt m)) = [m]"
    and "parentPort rt \<Longrightarrow> fst (parentLog rt n l s) = Inr ()
           \<and> posted (snd (parentLog rt n l s)) = [Log (threadId rt) (threadName wd) n l s]"
  using assms by (simp_all add: parentPost_no_link parentLog_no_link parentPost_linked parentLog_linked)

text \<open>
  Claim C10. When there is no control-plane link, \<^verbatim>\<open>parentPost\<close> and \<^verbatim>\<open>parentLog\<close> throw
  and have had no effect at all: in particular nothing was handed to
  \<^verbatim>\<open>parentPort.postMessage\<close>.
\<close>

theorem failed_post_leaves_link_untouched:
  "\<not> parentPort rt \<Longrightarrow>
     (\<exists>e. parentPost rt m = (Inl e, [])) \<and> (\<exists>e. parentLog rt n l s = (Inl e, []))"
  by (simp add: parentPost_no_link parentLog_no_link split: option.splits)

theorem failed_post_leaves_link_untouched_witness:
  "\<not> parentPort mainThread
   \<and> (\<exists>e. parentPost mainThread (Exit 0 ''Main'' True) = (Inl e, []))
   \<and> (\<exists>e. parentLog mainThread None ERROR ''late'' = (Inl e, []))"
  using failed_post_leaves_link_untouched [of mainThread "Exit 0 ''Main'' True" None ERROR "''late''"]
  by (simp add: mainThread_def)

text \<open>
  Claim C7. \<^verbatim>\<open>createESMWorker\<close> always returns a worker. Its initial data are the given
  data with \<^verbatim>\<open>threadName\<close> set to the name (the name alone when no data are given); its
  \<^verbatim>\<open>argv\<close> is the given one, or \<^verbatim>\<open>process.argv\<close> without its first two entries when
  omitted; its \<^verbatim>\<open>env\<close> is the given one, or \<^verbatim>\<open>process.env\<close> when omitted; its
  \<^verbatim>\<open>execArgv\<close> is the given one, or none when omitted; and its standard output and error are
  captured exactly when \<^verbatim>\<open>pipedOutput\<close> was given as true.
\<close>

theorem createESMWorker_options:
  "\<exists>w. fst (createESMWorker rt proc toFileURL name relativePath data argv env execArgv pipedOutput)
          = Inr w
     \<and> opt_workerData (options w)
         = (case data of None \<Rightarrow> Map.empty | Some d \<Rightarrow> d)(''threadName'' \<mapsto> VStr name)
     \<and> opt_workerData (options w) ''threadName'' = Some (VStr name)
     \<and> opt_name (options w) = name
     \<and> opt_argv (options w) = (case argv of None \<Rightarrow> drop 2 (proc_argv proc) | Some a \<Rightarrow> a)
     \<and> opt_env (options w) = (case env of None \<Rightarrow> proc_env proc | Some e \<Rightarrow> e)
     \<and> opt_execArgv (options w) = execArgv
     \<and> opt_stdout (options w) = (pipedOutput = Some True)
     \<and> opt_stderr (options w) = (pipedOutput = Some True)"
  by (cases pipedOutput) (auto simp add: createESMWorker_def Let_def prog_defs)

text \<open>The call of the test \<open>uses defaults when argv/env omitted\<close>.\<close>

lemma createESMWorker_defaults:
  "\<exists>w. fst (createESMWorker rt \<lparr> proc_argv = [''node'', ''script'', ''--x'', ''1''], proc_env = e \<rparr>
               toFileURL ''N'' ''./packages/thread/dist/workerGlobalPrefix.js''
               None None None None None) = Inr w
     \<and> opt_argv (options w) = [''--x'', ''1''] \<and> opt_env (options w) = e
     \<and> opt_workerData (options w) = [''threadName'' \<mapsto> VStr ''N'']
     \<and> opt_execArgv (options w) = None \<and> \<not> opt_stdout (options w) \<and> \<not> opt_stderr (options w)"
  by (auto simp add: createESMWorker_def Let_def prog_defs)

section \<open>Properties of the worker scripts\<close>

lemma workerGlobalPrefix_script:
  "workerGlobalPrefix rt ie g =
     workerScript rt ie ''MatterbridgeGlobalPrefix'' ''Starting global prefix check...''
       ''Failed to get global node modules'' (globalPrefixTask rt g)"
  by (simp only: workerGlobalPrefix_def workerScript_def)

lemma workerCheckUpdates_script:
  "workerCheckUpdates rt ie f cu =
     workerScript rt ie ''MatterbridgeCheckUpdates'' ''Starting check updates...''
       ''Failed to check updates'' (checkUpdatesTask rt f cu)"
  by (simp only: workerCheckUpdates_def workerScript_def)

lemma workerSystemCheck_script:
  "workerSystemCheck rt ie inp =
     workerScript rt ie ''MatterbridgeSystemCheck'' ''Starting system check...''
       ''Failed to perform system check'' (systemCheckTask rt inp)"
  by (simp only: workerSystemCheck_def workerScript_def)

lemma posted_append [simp]: "posted (xs @ ys) = posted xs @ posted ys"
  by (induction xs rule: posted.induct) simp_all

lemma relayed_append [simp]: "relayed (xs @ ys) = relayed xs @ relayed ys"
  by (induction xs rule: relayed.induct) simp_all

lemma initBlock_unlinked: "\<not> link_active rt \<Longrightarrow> initBlock rt N = (Inr (), [])"
  by (auto simp add: initBlock_def link_active_def return_def)

lemma exitBlock_unlinked: "\<not> link_active rt \<Longrightarrow> exitBlock rt N ok = (Inr (), [])"
  by (auto simp add: exitBlock_def link_active_def return_def)

lemma initBlock_linked:
  "link_active rt \<Longrightarrow> workerData rt = Some wd \<Longrightarrow>
   initBlock rt N =
     (Inr (), PostMessage (Init (threadId rt) (threadName wd) True)
        # (if debug rt
           then [ModuleDebug (threadName wd) (threadId rt) (Init (threadId rt) (threadName wd) True),
                 PostMessage (Log (threadId rt) (threadName wd) (Some N) INFO
                   (''Worker '' @ threadName wd @ '':'' @ string_of_nat (threadId rt) @ '' initialized.'')),
                 ModuleDebug (threadName wd) (threadId rt)
                   (Log (threadId rt) (threadName wd) (Some N) INFO
                   (''Worker '' @ threadName wd @ '':'' @ string_of_nat (threadId rt) @ '' initialized.''))]
           else []))"
  by (simp add: initBlock_def link_active_def parentPost_linked parentLog_linked
      workerData_threadName_def prog_defs)

lemma exitBlock_linked:
  "link_active rt \<Longrightarrow> workerData rt = Some wd \<Longrightarrow>
   exitBlock rt N ok =
     (Inr (), PostMessage (Exit (threadId rt) (threadName wd) ok)
        # (if debug rt
           then [ModuleDebug (threadName wd) (threadId rt) (Exit (threadId rt) (threadName wd) ok),
                 PostMessage (Log (threadId rt) (threadName wd) (Some N) INFO
                   (''Worker '' @ threadName wd @ '':'' @ string_of_nat (threadId rt)
                      @ '' exiting with success: '' @ string_of_bool ok @ ''.'')),
                 ModuleDebug (threadName wd) (threadId rt)
                   (Log (threadId rt) (threadName wd) (Some N) INFO
                   (''Worker '' @ threadName wd @ '':'' @ string_of_nat (threadId rt)
                      @ '' exiting with success: '' @ string_of_bool ok @ ''.''))]
           else []))"
  by (simp add: exitBlock_def link_active_def parentPost_linked parentLog_linked
      workerData_threadName_def prog_defs)


lemma threadLogger_returns:
  "link_active rt \<longrightarrow> workerData rt \<noteq> None \<Longrightarrow> fst (threadLogger rt n l s) = Inr ()"
  by (cases "link_active rt") (auto simp add: threadLogger_linked threadLogger_unlinked)

lemma catchBlock_run:
  "link_active rt \<longrightarrow> workerData rt \<noteq> None \<Longrightarrow>
   catchBlock rt ie N ft e = (Inr False, InspectError ft e # snd (threadLogger rt N ERROR (ie ft e)))"
  by (cases "link_active rt") (auto simp add: catchBlock_def threadLogger_linked threadLogger_unlinked prog_defs)

lemma try_catch_run:
  "link_active rt \<longrightarrow> workerData rt \<noteq> None \<Longrightarrow>
   try_catch task (catchBlock rt ie N ft) =
     (case fst task of
        Inl e \<Rightarrow> (Inr False, snd task @ InspectError ft e # snd (threadLogger rt N ERROR (ie ft e)))
      | Inr v \<Rightarrow> (Inr v, snd task))"
  by (cases task) (auto simp add: try_catch_def catchBlock_run split: sum.splits)

lemma workerScript_shape:
  assumes wf: "link_active rt \<longrightarrow> workerData rt \<noteq> None"
  shows "workerScript rt ie N st ft task =
     (Inr (), snd (initBlock rt N) @ BusCreate ''matterbridge''
        # (if verbose rt then [WorkerInfo True] else [])
        @ snd (threadLogger rt N INFO st)
        @ snd (try_catch task (catchBlock rt ie N ft))
        @ BusClose # snd (exitBlock rt N (task_outcome task)))"
proof -
  obtain r tr where task: "task = (r, tr)" by (cases task)
  show ?thesis
  proof (cases "link_active rt")
    case False
    then show ?thesis
      by (cases r)
         (simp_all add: task workerScript_def initBlock_unlinked exitBlock_unlinked
            threadLogger_unlinked catchBlock_run task_outcome_def prog_defs)
  next
    case True
    with wf obtain wd where wd: "workerData rt = Some wd" by auto
    from True wd show ?thesis
      by (cases r)
         (simp_all add: task workerScript_def initBlock_linked exitBlock_linked
            threadLogger_linked catchBlock_run task_outcome_def prog_defs)
  qed
qed


subsection \<open>Keeping to the task\<close>

lemma keeps_return [simp]: "keeps_to_task rt (return v)"
  by (simp add: keeps_to_task_def return_def)

lemma keeps_await [simp]: "keeps_to_task rt (await r)"
  by (simp add: keeps_to_task_def await_def)

lemma keeps_emit [simp]: "keeps_to_task rt (emit e) = task_effect rt e"
  by (simp add: keeps_to_task_def emit_def)

lemma and_then_run:
  "and_then m f =
     (case fst m of Inl e \<Rightarrow> (Inl e, snd m) | Inr v \<Rightarrow> (fst (f v), snd m @ snd (f v)))"
  by (cases m) (simp add: and_then_def split: sum.splits prod.splits)

lemma try_catch_split:
  "try_catch m h =
     (case fst m of Inl e \<Rightarrow> (fst (h e), snd m @ snd (h e)) | Inr v \<Rightarrow> (Inr v, snd m))"
  by (cases m) (simp add: try_catch_def split: sum.splits prod.splits)

lemma keeps_and_then:
  "keeps_to_task rt m \<Longrightarrow> (\<And>v. keeps_to_task rt (f v)) \<Longrightarrow> keeps_to_task rt (and_then m f)"
  by (simp add: keeps_to_task_def and_then_run split: sum.splits)

lemma keeps_then_do:
  "keeps_to_task rt m \<Longrightarrow> keeps_to_task rt k \<Longrightarrow> keeps_to_task rt (then_do m k)"
  by (simp add: then_do_def keeps_and_then)

lemma keeps_try_catch:
  "keeps_to_task rt m \<Longrightarrow> (\<And>e. keeps_to_task rt (h e)) \<Longrightarrow> keeps_to_task rt (try_catch m h)"
  by (simp add: keeps_to_task_def try_catch_split split: sum.splits)

lemma keeps_threadLogger [simp]: "keeps_to_task rt (threadLogger rt n l s)"
proof (cases "link_active rt")
  case False
  then show ?thesis by (simp add: threadLogger_unlinked keeps_to_task_def)
next
  case True
  then show ?thesis
    by (cases "workerData rt")
       (simp_all add: threadLogger_orphan threadLogger_linked keeps_to_task_def)
qed

lemma keeps_when [simp]:
  "keeps_to_task rt (if c then threadLogger rt n l s else return ())"
  by simp

lemma keeps_catchBlock [simp]: "keeps_to_task rt (catchBlock rt ie N ft e)"
  by (simp add: catchBlock_def keeps_then_do)

lemma keeps_scanInterfaces [simp]: "keeps_to_task rt (scanInterfaces rt sh excl f ifs)"
  by (induction rt sh excl f ifs rule: scanInterfaces.induct) (simp_all add: keeps_then_do)

lemma keeps_globalPrefixTask [simp]: "keeps_to_task rt (globalPrefixTask rt g)"
  by (simp add: globalPrefixTask_def keeps_then_do keeps_and_then)

lemma keeps_checkUpdatesTask [simp]: "keeps_to_task rt (checkUpdatesTask rt f cu)"
  by (simp add: checkUpdatesTask_def keeps_then_do keeps_and_then)

lemma keeps_systemCheckTask [simp]: "keeps_to_task rt (systemCheckTask rt inp)"
  unfolding systemCheckTask_def
  by (intro keeps_and_then keeps_then_do keeps_when keeps_threadLogger keeps_scanInterfaces
        keeps_return) simp_all

lemma task_effects_posted_logs: "list_all (task_effect rt) tr \<Longrightarrow> list_all is_log (posted tr)"
  by (induction tr rule: posted.induct) simp_all

lemma task_effects_unlinked: "list_all (task_effect rt) tr \<Longrightarrow> \<not> link_active rt \<Longrightarrow> posted tr = []"
  by (induction tr rule: posted.induct) simp_all

lemma task_effects_no_close: "list_all (task_effect rt) tr \<Longrightarrow> count_list tr BusClose = 0"
  by (induction tr) auto

lemma control_initBlock:
  "link_active rt \<longrightarrow> workerData rt \<noteq> None \<Longrightarrow>
   list_all control_effect (snd (initBlock rt N))
   \<and> \<not> list_ex is_exit (posted (snd (initBlock rt N)))
   \<and> (list_ex is_init (posted (snd (initBlock rt N))) \<longleftrightarrow> link_active rt)"
  by (cases "link_active rt") (auto simp add: initBlock_linked initBlock_unlinked split: if_splits)

lemma control_exitBlock:
  "link_active rt \<longrightarrow> workerData rt \<noteq> None \<Longrightarrow>
   list_all control_effect (snd (exitBlock rt N ok))
   \<and> \<not> list_ex is_init (posted (snd (exitBlock rt N ok)))
   \<and> (list_ex is_exit (posted (snd (exitBlock rt N ok))) \<longleftrightarrow> link_active rt)"
  by (cases "link_active rt") (auto simp add: exitBlock_linked exitBlock_unlinked split: if_splits)

lemma control_effects_no_close: "list_all control_effect tr \<Longrightarrow> count_list tr BusClose = 0"
  by (induction tr) auto

text \<open>The part of a script between the creation and the closing of the bus.\<close>

lemma middle_keeps_to_task:
  assumes "keeps_to_task rt task"
  shows "list_all (task_effect rt)
           ((if verbose rt then [WorkerInfo True] else [])
              @ snd (threadLogger rt N INFO st) @ snd (try_catch task (catchBlock rt ie N ft)))"
proof -
  have "keeps_to_task rt (threadLogger rt N INFO st)" by simp
  moreover have "keeps_to_task rt (try_catch task (catchBlock rt ie N ft))"
    using assms by (simp add: keeps_try_catch)
  ultimately show ?thesis by (simp add: keeps_to_task_def)
qed

lemma workerScript_close:
  assumes wf: "link_active rt \<longrightarrow> workerData rt \<noteq> None"
    and task: "keeps_to_task rt task"
  shows "fst (workerScript rt ie N st ft task) = Inr ()
     \<and> count_list (snd (workerScript rt ie N st ft task)) BusClose = 1
     \<and> (\<exists>a b c. snd (workerScript rt ie N st ft task) = a @ BusCreate ''matterbridge'' # b @ BusClose # c
          \<and> list_all control_effect a \<and> list_all (task_effect rt) b \<and> list_all control_effect c
          \<and> \<not> list_ex is_exit (posted a) \<and> \<not> list_ex is_init (posted c)
          \<and> (list_ex is_init (posted a) \<longleftrightarrow> link_active rt)
          \<and> (list_ex is_exit (posted c) \<longleftrightarrow> link_active rt))"
proof -
  let ?a = "snd (initBlock rt N)"
  let ?b = "(if verbose rt then [WorkerInfo True] else [])
              @ snd (threadLogger rt N INFO st) @ snd (try_catch task (catchBlock rt ie N ft))"
  let ?c = "snd (exitBlock rt N (task_outcome task))"
  have shape: "workerScript rt ie N st ft task = (Inr (), ?a @ BusCreate ''matterbridge'' # ?b @ BusClose # ?c)"
    using workerScript_shape [OF wf] by simp
  have a: "list_all control_effect ?a" "\<not> list_ex is_exit (posted ?a)"
    "list_ex is_init (posted ?a) \<longleftrightarrow> link_active rt"
    using control_initBlock [OF wf] by auto
  have c: "list_all control_effect ?c" "\<not> list_ex is_init (posted ?c)"
    "list_ex is_exit (posted ?c) \<longleftrightarrow> link_active rt"
    using control_exitBlock [OF wf] by auto
  have b: "list_all (task_effect rt) ?b" by (rule middle_keeps_to_task [OF task])
  have "count_list (?a @ BusCreate ''matterbridge'' # ?b @ BusClose # ?c) BusClose = 1"
    using control_effects_no_close [OF a(1)] control_effects_no_close [OF c(1)]
      task_effects_no_close [OF b] by simp
  moreover have "\<exists>a b c. ?a @ BusCreate ''matterbridge'' # ?b @ BusClose # ?c
                           = a @ BusCreate ''matterbridge'' # b @ BusClose # c
          \<and> list_all control_effect a \<and> list_all (task_effect rt) b \<and> list_all control_effect c
          \<and> \<not> list_ex is_exit (posted a) \<and> \<not> list_ex is_init (posted c)
          \<and> (list_ex is_init (posted a) \<longleftrightarrow> link_active rt)
          \<and> (list_ex is_exit (posted c) \<longleftrightarrow> link_active rt)"
    using a b c by blast
  ultimately show ?thesis by (simp only: shape fst_conv snd_conv)
qed


lemma logs_no_init_exit:
  "list_all is_log ms \<Longrightarrow> \<not> list_ex is_init ms \<and> \<not> list_ex is_exit ms
     \<and> filter is_exit ms = [] \<and> filter is_init ms = []"
proof (induction ms)
  case Nil
  then show ?case by simp
next
  case (Cons m ms)
  then show ?case by (cases m) simp_all
qed

lemma workerScript_init:
  assumes wf: "link_active rt \<longrightarrow> workerData rt \<noteq> None"
    and task: "keeps_to_task rt task"
  shows "fst (workerScript rt ie N st ft task) = Inr ()
     \<and> (link_active rt \<longrightarrow>
          (\<exists>tr. snd (workerScript rt ie N st ft task)
             = PostMessage (Init (threadId rt) (threadName (the (workerData rt))) True) # tr))
     \<and> (\<not> link_active rt \<longrightarrow> posted (snd (workerScript rt ie N st ft task)) = [])
     \<and> (list_ex is_init (posted (snd (workerScript rt ie N st ft task))) \<longleftrightarrow> link_active rt)"
proof -
  let ?b = "(if verbose rt then [WorkerInfo True] else [])
              @ snd (threadLogger rt N INFO st) @ snd (try_catch task (catchBlock rt ie N ft))"
  have b: "list_all (task_effect rt) ?b" by (rule middle_keeps_to_task [OF task])
  have shape: "workerScript rt ie N st ft task =
      (Inr (), snd (initBlock rt N) @ BusCreate ''matterbridge'' # ?b
         @ BusClose # snd (exitBlock rt N (task_outcome task)))"
    using workerScript_shape [OF wf] by simp
  show ?thesis
  proof (cases "link_active rt")
    case False
    with task_effects_unlinked [OF b] show ?thesis
      by (simp add: shape initBlock_unlinked exitBlock_unlinked)
  next
    case True
    with wf obtain wd where wd: "workerData rt = Some wd" by auto
    from True wd show ?thesis
      by (simp add: shape initBlock_linked)
  qed
qed

lemma workerScript_control_sequence:
  assumes link: "link_active rt" and wd: "workerData rt = Some wd"
    and task: "keeps_to_task rt task"
  shows "\<exists>logs trail.
      posted (snd (workerScript rt ie N st ft task))
        = Init (threadId rt) (threadName wd) True # logs
            @ Exit (threadId rt) (threadName wd) (task_outcome task) # trail
      \<and> list_all is_log logs \<and> list_all is_log trail
      \<and> length trail = (if debug rt then 1 else 0)"
proof -
  let ?b = "(if verbose rt then [WorkerInfo True] else [])
              @ snd (threadLogger rt N INFO st) @ snd (try_catch task (catchBlock rt ie N ft))"
  have b: "list_all is_log (posted ?b)"
    by (rule task_effects_posted_logs [OF middle_keeps_to_task [OF task]])
  have wf: "link_active rt \<longrightarrow> workerData rt \<noteq> None" using wd by simp
  have shape: "workerScript rt ie N st ft task =
      (Inr (), snd (initBlock rt N) @ BusCreate ''matterbridge'' # ?b
         @ BusClose # snd (exitBlock rt N (task_outcome task)))"
    using workerScript_shape [OF wf] by simp
  let ?initlog = "Log (threadId rt) (threadName wd) (Some N) INFO
                   (''Worker '' @ threadName wd @ '':'' @ string_of_nat (threadId rt) @ '' initialized.'')"
  let ?exitlog = "Log (threadId rt) (threadName wd) (Some N) INFO
                   (''Worker '' @ threadName wd @ '':'' @ string_of_nat (threadId rt)
                      @ '' exiting with success: '' @ string_of_bool (task_outcome task) @ ''.'')"
  let ?logs = "(if debug rt then [?initlog] else []) @ posted ?b"
  let ?trail = "if debug rt then [?exitlog] else []"
  have "posted (snd (workerScript rt ie N st ft task))
        = Init (threadId rt) (threadName wd) True # ?logs
            @ Exit (threadId rt) (threadName wd) (task_outcome task) # ?trail"
    by (simp add: shape initBlock_linked [OF link wd] exitBlock_linked [OF link wd])
  moreover have "list_all is_log ?logs" using b by simp
  moreover have "list_all is_log ?trail" by simp
  moreover have "length ?trail = (if debug rt then 1 else 0)" by simp
  ultimately show ?thesis by blast
qed

lemma control_effects_not_relayed: "list_all control_effect tr \<Longrightarrow> relayed tr = []"
  by (induction tr rule: relayed.induct) simp_all

lemma relayed_threadLogger:
  "link_active rt \<longrightarrow> workerData rt \<noteq> None \<Longrightarrow> relayed (snd (threadLogger rt n l s)) = [(n, l, s)]"
  by (cases "link_active rt") (auto simp add: threadLogger_linked threadLogger_unlinked)

lemma workerScript_failure:
  assumes wf: "link_active rt \<longrightarrow> workerData rt \<noteq> None"
    and task: "keeps_to_task rt task"
    and fails: "fst task = Inl e"
  shows "fst (workerScript rt ie N st ft task) = Inr ()
     \<and> relayed (snd (workerScript rt ie N st ft task))
         = (N, INFO, st) # relayed (snd task) @ [(N, ERROR, ie ft e)]
     \<and> filter is_exit (posted (snd (workerScript rt ie N st ft task)))
         = (if link_active rt then [Exit (threadId rt) (threadName (the (workerData rt))) False]
            else [])"
proof -
  let ?g = "snd task @ InspectError ft e # snd (threadLogger rt N ERROR (ie ft e))"
  have guarded: "try_catch task (catchBlock rt ie N ft) = (Inr False, ?g)"
    using try_catch_run [OF wf, of task ie N ft] fails by simp
  have outcome: "task_outcome task = False" using fails by (simp add: task_outcome_def)
  have shape: "workerScript rt ie N st ft task =
      (Inr (), snd (initBlock rt N) @ BusCreate ''matterbridge''
         # (if verbose rt then [WorkerInfo True] else []) @ snd (threadLogger rt N INFO st) @ ?g
         @ BusClose # snd (exitBlock rt N False))"
    using workerScript_shape [OF wf, of ie N st ft task] by (simp add: guarded outcome)
  have a: "relayed (snd (initBlock rt N)) = []"
    using control_initBlock [OF wf] by (simp add: control_effects_not_relayed)
  have c: "relayed (snd (exitBlock rt N False)) = []"
    using control_exitBlock [OF wf] by (simp add: control_effects_not_relayed)
  have rel: "relayed (snd (workerScript rt ie N st ft task))
         = (N, INFO, st) # relayed (snd task) @ [(N, ERROR, ie ft e)]"
    by (simp add: shape a c relayed_threadLogger [OF wf])
  have tlogs: "list_all is_log (posted (snd task))"
    using task by (simp add: keeps_to_task_def task_effects_posted_logs)
  have exits: "filter is_exit (posted (snd (workerScript rt ie N st ft task)))
         = (if link_active rt then [Exit (threadId rt) (threadName (the (workerData rt))) False]
            else [])"
  proof (cases "link_active rt")
    case False
    have "posted (snd task) = []"
      using task False by (simp add: keeps_to_task_def task_effects_unlinked)
    with False show ?thesis
      by (simp add: shape initBlock_unlinked exitBlock_unlinked threadLogger_unlinked)
  next
    case True
    with wf obtain wd where wd: "workerData rt = Some wd" by auto
    from True wd logs_no_init_exit [OF tlogs] show ?thesis
      by (simp add: shape initBlock_linked exitBlock_linked threadLogger_linked)
  qed
  from shape rel exits show ?thesis by simp
qed

lemma globalPrefixTask_fails:
  assumes wf: "link_active rt \<longrightarrow> workerData rt \<noteq> None"
    and fails: "fst (globalPrefixTask rt g) = Inl e"
  shows "g = Inl e \<and> relayed (snd (globalPrefixTask rt g)) = []"
proof (cases g)
  case (Inl e')
  with fails show ?thesis by (simp add: globalPrefixTask_def prog_defs)
next
  case (Inr prefix)
  with fails threadLogger_returns [OF wf] show ?thesis
    by (simp add: globalPrefixTask_def and_then_run then_do_def emit_def await_def return_def
        split: sum.splits)
qed

lemma checkUpdatesTask_fails:
  assumes wf: "link_active rt \<longrightarrow> workerData rt \<noteq> None"
    and fails: "fst (checkUpdatesTask rt f cu) = Inl e"
  shows "relayed (snd (checkUpdatesTask rt f cu)) = []"
proof (cases f)
  case (Inl e')
  with fails show ?thesis by (simp add: checkUpdatesTask_def prog_defs)
next
  case (Inr sh)
  with fails threadLogger_returns [OF wf] show ?thesis
    by (cases "cu sh")
       (simp_all add: checkUpdatesTask_def and_then_run then_do_def emit_def await_def return_def
          split: sum.splits)
qed

lemmas script_defs = workerGlobalPrefix_script workerCheckUpdates_script workerSystemCheck_script

text \<open>
  The init message where a worker with a link has its \<^verbatim>\<open>workerData\<close>. Each of the three
  scripts returns normally; when it runs in a worker with a link, the first thing it does is
  post the init message with \<^verbatim>\<open>success: true\<close>; when it runs on the main thread or
  without a link, it posts nothing at all; so an init message is posted if and only if the
  script runs in a worker with a link.
\<close>

lemma init_iff_link_active:
  assumes "link_active rt \<longrightarrow> workerData rt \<noteq> None"
  shows "\<forall>run \<in> {workerGlobalPrefix rt ie g, workerCheckUpdates rt ie f cu,
                  workerSystemCheck rt ie inp}.
           fst run = Inr ()
           \<and> (link_active rt \<longrightarrow>
                (\<exists>tr. snd run
                   = PostMessage (Init (threadId rt) (threadName (the (workerData rt))) True) # tr))
           \<and> (\<not> link_active rt \<longrightarrow> posted (snd run) = [])
           \<and> (list_ex is_init (posted (snd run)) \<longleftrightarrow> link_active rt)"
  using workerScript_init [OF assms] by (simp add: script_defs)

lemma init_iff_link_active_example:
  "link_active (workerThread ''GlobalPrefix'' 1 False)
   \<and> workerData (workerThread ''GlobalPrefix'' 1 False) \<noteq> None
   \<and> (\<exists>tr. snd (workerGlobalPrefix (workerThread ''GlobalPrefix'' 1 False) inspected
                  (Inr ''/custom/prefix''))
        = PostMessage (Init 1 ''GlobalPrefix'' True) # tr)
   \<and> \<not> link_active mainThread
   \<and> fst (workerGlobalPrefix mainThread inspected (Inr ''/custom/prefix'')) = Inr ()
   \<and> posted (snd (workerGlobalPrefix mainThread inspected (Inr ''/custom/prefix''))) = []"
  using init_iff_link_active [of "workerThread ''GlobalPrefix'' 1 False" inspected
      "Inr ''/custom/prefix''"]
    init_iff_link_active [of mainThread inspected "Inr ''/custom/prefix''"]
  by (simp add: workerThread_def mainThread_def link_active_def)




text \<open>
  Claim C4, as the code has it. In a worker with a link, the control messages of a script are:
  the init message, once and first; then log messages only; then the exit message, once; and
  after it no init or exit message, but exactly one more log message when the debug switch is
  on (the trace of the exit), and nothing when it is off.
\<close>

theorem control_message_sequence:
  assumes "link_active rt" and "workerData rt = Some wd"
  shows "\<forall>run \<in> {workerGlobalPrefix rt ie g, workerCheckUpdates rt ie f cu,
                  workerSystemCheck rt ie inp}.
           \<exists>logs trail ok.
             posted (snd run)
               = Init (threadId rt) (threadName wd) True # logs
                   @ Exit (threadId rt) (threadName wd) ok # trail
             \<and> list_all is_log logs \<and> list_all is_log trail
             \<and> length trail = (if debug rt then 1 else 0)"
proof -
  have "\<And>N st ft task. keeps_to_task rt task \<Longrightarrow>
      \<exists>logs trail ok.
        posted (snd (workerScript rt ie N st ft task))
          = Init (threadId rt) (threadName wd) True # logs
              @ Exit (threadId rt) (threadName wd) ok # trail
        \<and> list_all is_log logs \<and> list_all is_log trail
        \<and> length trail = (if debug rt then 1 else 0)"
    using workerScript_control_sequence [OF assms] by blast
  then show ?thesis by (simp add: script_defs)
qed

theorem control_message_sequence_witness:
  "link_active (workerThread ''GlobalPrefix'' 1 False)
   \<and> workerData (workerThread ''GlobalPrefix'' 1 False) = Some \<lparr> threadName = ''GlobalPrefix'' \<rparr>
   \<and> (\<exists>logs trail ok.
         posted (snd (workerGlobalPrefix (workerThread ''GlobalPrefix'' 1 False) inspected
                        (Inr ''/custom/prefix'')))
           = Init 1 ''GlobalPrefix'' True # logs @ Exit 1 ''GlobalPrefix'' ok # trail
         \<and> list_all is_log logs \<and> list_all is_log trail \<and> length trail = 0)"
proof -
  have l: "link_active (workerThread ''GlobalPrefix'' 1 False)"
    by (simp add: workerThread_def link_active_def)
  have w: "workerData (workerThread ''GlobalPrefix'' 1 False) = Some \<lparr> threadName = ''GlobalPrefix'' \<rparr>"
    by (simp add: workerThread_def)
  have d: "\<not> debug (workerThread ''GlobalPrefix'' 1 False)"
    by (simp add: workerThread_def debug_def)
  have t: "threadId (workerThread ''GlobalPrefix'' 1 False) = 1"
    by (simp add: workerThread_def)
  from control_message_sequence [OF l w, of inspected "Inr ''/custom/prefix''"] l w d t
  show ?thesis by simp
qed

text \<open>
  Claim C4 as stated fails with the debug switch on: the run of workerGlobalPrefix in the
  worker \<open>GlobalPrefix:1\<close> posts these six control messages, and the last one is not the exit
  message but the log message that reports it.
\<close>

theorem exit_not_last_with_debug:
  "posted (snd (workerGlobalPrefix (workerThread ''GlobalPrefix'' 1 True) inspected
                  (Inr ''/custom/prefix'')))
     = [Init 1 ''GlobalPrefix'' True,
        Log 1 ''GlobalPrefix'' (Some ''MatterbridgeGlobalPrefix'') INFO
          ''Worker GlobalPrefix:1 initialized.'',
        Log 1 ''GlobalPrefix'' (Some ''MatterbridgeGlobalPrefix'') INFO
          ''Starting global prefix check...'',
        Log 1 ''GlobalPrefix'' (Some ''MatterbridgeGlobalPrefix'') INFO
          ''Global node_modules directory: /custom/prefix'',
        Exit 1 ''GlobalPrefix'' True,
        Log 1 ''GlobalPrefix'' (Some ''MatterbridgeGlobalPrefix'') INFO
          ''Worker GlobalPrefix:1 exiting with success: true.'']"
proof -
  define rt where "rt = workerThread ''GlobalPrefix'' 1 True"
  have l: "link_active rt"
    by (simp add: rt_def workerThread_def link_active_def)
  have w: "workerData rt = Some \<lparr> threadName = ''GlobalPrefix'' \<rparr>"
    by (simp add: rt_def workerThread_def)
  have d: "debug rt" "\<not> verbose rt"
    by (simp_all add: rt_def workerThread_def debug_def verbose_def)
  have t: "threadId rt = 1"
    by (simp add: rt_def workerThread_def)
  have n: "string_of_nat (Suc 0) = ''1''" by (simp add: string_of_nat.simps)
  have "posted (snd (workerGlobalPrefix rt inspected (Inr ''/custom/prefix'')))
     = [Init 1 ''GlobalPrefix'' True,
        Log 1 ''GlobalPrefix'' (Some ''MatterbridgeGlobalPrefix'') INFO
          ''Worker GlobalPrefix:1 initialized.'',
        Log 1 ''GlobalPrefix'' (Some ''MatterbridgeGlobalPrefix'') INFO
          ''Starting global prefix check...'',
        Log 1 ''GlobalPrefix'' (Some ''MatterbridgeGlobalPrefix'') INFO
          ''Global node_modules directory: /custom/prefix'',
        Exit 1 ''GlobalPrefix'' True,
        Log 1 ''GlobalPrefix'' (Some ''MatterbridgeGlobalPrefix'') INFO
          ''Worker GlobalPrefix:1 exiting with success: true.'']"
    by (simp add: workerGlobalPrefix_def globalPrefixTask_def initBlock_linked [OF l w]
        exitBlock_linked [OF l w] threadLogger_linked [OF l w] d t n string_of_bool_def
        catchBlock_def prog_defs)
  then show ?thesis by (simp only: rt_def)
qed

text \<open>
  The closing of the bus where a worker with a link has its \<^verbatim>\<open>workerData\<close>, main thread
  included. Each of the three scripts returns normally and calls \<^verbatim>\<open>close\<close> exactly once.
  Its effects are: control-plane effects only, with no exit message among them and the init
  message when there is a link; then the creation of the bus; then task effects only (the
  task and its catch handler: no init or exit message, no second creation or closing); then
  the closing of the bus; then control-plane effects only, with no init message among them and
  the exit message when there is a link.
\<close>

lemma bus_closed_exactly_once:
  assumes "link_active rt \<longrightarrow> workerData rt \<noteq> None"
  shows "\<forall>run \<in> {workerGlobalPrefix rt ie g, workerCheckUpdates rt ie f cu,
                  workerSystemCheck rt ie inp}.
           fst run = Inr ()
           \<and> count_list (snd run) BusClose = 1
           \<and> (\<exists>a b c. snd run = a @ BusCreate ''matterbridge'' # b @ BusClose # c
                \<and> list_all control_effect a \<and> list_all (task_effect rt) b
                \<and> list_all control_effect c
                \<and> \<not> list_ex is_exit (posted a) \<and> \<not> list_ex is_init (posted c)
                \<and> (list_ex is_init (posted a) \<longleftrightarrow> link_active rt)
                \<and> (list_ex is_exit (posted c) \<longleftrightarrow> link_active rt))"
  using workerScript_close [OF assms] by (simp add: script_defs)

lemma bus_closed_exactly_once_example:
  "\<not> link_active mainThread
   \<and> fst (workerCheckUpdates mainThread inspected (Inl (JsError ''fetch failed'')) checkUpdatesOk)
       = Inr ()
   \<and> count_list
        (snd (workerCheckUpdates mainThread inspected (Inl (JsError ''fetch failed'')) checkUpdatesOk))
        BusClose = 1
   \<and> link_active (workerThread ''SystemCheck'' 1 False)
   \<and> workerData (workerThread ''SystemCheck'' 1 False) \<noteq> None
   \<and> count_list (snd (workerSystemCheck (workerThread ''SystemCheck'' 1 False) inspected brokenNetwork))
        BusClose = 1"
  using bus_closed_exactly_once [of mainThread inspected _ "Inl (JsError ''fetch failed'')"
      checkUpdatesOk]
    bus_closed_exactly_once [of "workerThread ''SystemCheck'' 1 False" inspected _ _ _ brokenNetwork]
  by (simp add: workerThread_def mainThread_def link_active_def)


lemma systemCheckTask_fetch_fails:
  "fetched inp = Inl e \<Longrightarrow> systemCheckTask rt inp = (Inl e, [BusFetch fetchShared 1000])"
  by (simp add: systemCheckTask_def prog_defs)

text \<open>
  Claim C2, as the code has it. In a runtime where a worker with a link has its
  \<^verbatim>\<open>workerData\<close>, when the task of a script throws, the script still returns normally; after
  the relay calls of the task the catch handler makes exactly one more, at error level, with
  the text that \<^verbatim>\<open>inspectError\<close> gives for the error, and it is the last relay call of the
  run; in workerGlobalPrefix and workerCheckUpdates it is the only error-level relay call of the
  run; the exit messages of the run are exactly one, with \<^verbatim>\<open>success: false\<close>, when there is
  a link, and none otherwise.
\<close>

theorem task_failure_contained:
  assumes "link_active rt \<longrightarrow> workerData rt \<noteq> None"
  shows "(fst (globalPrefixTask rt g) = Inl ea \<longrightarrow>
            fst (workerGlobalPrefix rt ie g) = Inr ()
            \<and> relayed (snd (workerGlobalPrefix rt ie g))
                = (''MatterbridgeGlobalPrefix'', INFO, ''Starting global prefix check...'')
                    # relayed (snd (globalPrefixTask rt g))
                    @ [(''MatterbridgeGlobalPrefix'', ERROR, ie ''Failed to get global node modules'' ea)]
            \<and> filter at_error_level (relayed (snd (workerGlobalPrefix rt ie g)))
                = [(''MatterbridgeGlobalPrefix'', ERROR, ie ''Failed to get global node modules'' ea)]
            \<and> filter is_exit (posted (snd (workerGlobalPrefix rt ie g)))
                = (if link_active rt
                   then [Exit (threadId rt) (threadName (the (workerData rt))) False] else []))
       \<and> (fst (checkUpdatesTask rt f cu) = Inl eb \<longrightarrow>
            fst (workerCheckUpdates rt ie f cu) = Inr ()
            \<and> relayed (snd (workerCheckUpdates rt ie f cu))
                = (''MatterbridgeCheckUpdates'', INFO, ''Starting check updates...'')
                    # relayed (snd (checkUpdatesTask rt f cu))
                    @ [(''MatterbridgeCheckUpdates'', ERROR, ie ''Failed to check updates'' eb)]
            \<and> filter at_error_level (relayed (snd (workerCheckUpdates rt ie f cu)))
                = [(''MatterbridgeCheckUpdates'', ERROR, ie ''Failed to check updates'' eb)]
            \<and> filter is_exit (posted (snd (workerCheckUpdates rt ie f cu)))
                = (if link_active rt
                   then [Exit (threadId rt) (threadName (the (workerData rt))) False] else []))
       \<and> (fst (systemCheckTask rt inp) = Inl ec \<longrightarrow>
            fst (workerSystemCheck rt ie inp) = Inr ()
            \<and> relayed (snd (workerSystemCheck rt ie inp))
                = (''MatterbridgeSystemCheck'', INFO, ''Starting system check...'')
                    # relayed (snd (systemCheckTask rt inp))
                    @ [(''MatterbridgeSystemCheck'', ERROR, ie ''Failed to perform system check'' ec)]
            \<and> filter is_exit (posted (snd (workerSystemCheck rt ie inp)))
                = (if link_active rt
                   then [Exit (threadId rt) (threadName (the (workerData rt))) False] else []))"
proof (intro conjI impI)
  assume fails: "fst (globalPrefixTask rt g) = Inl ea"
  note run = workerScript_failure [OF assms keeps_globalPrefixTask fails,
      of ie "''MatterbridgeGlobalPrefix''" "''Starting global prefix check...''"
        "''Failed to get global node modules''", folded workerGlobalPrefix_script]
  from run show "fst (workerGlobalPrefix rt ie g) = Inr ()" by simp
  from run show "relayed (snd (workerGlobalPrefix rt ie g))
      = (''MatterbridgeGlobalPrefix'', INFO, ''Starting global prefix check...'')
          # relayed (snd (globalPrefixTask rt g))
          @ [(''MatterbridgeGlobalPrefix'', ERROR, ie ''Failed to get global node modules'' ea)]"
    by simp
  from run globalPrefixTask_fails [OF assms fails, THEN conjunct2]
  show "filter at_error_level (relayed (snd (workerGlobalPrefix rt ie g)))
      = [(''MatterbridgeGlobalPrefix'', ERROR, ie ''Failed to get global node modules'' ea)]"
    by (simp add: at_error_level_def)
  from run show "filter is_exit (posted (snd (workerGlobalPrefix rt ie g)))
      = (if link_active rt then [Exit (threadId rt) (threadName (the (workerData rt))) False] else [])"
    by simp
next
  assume fails: "fst (checkUpdatesTask rt f cu) = Inl eb"
  note run = workerScript_failure [OF assms keeps_checkUpdatesTask fails,
      of ie "''MatterbridgeCheckUpdates''" "''Starting check updates...''"
        "''Failed to check updates''", folded workerCheckUpdates_script]
  from run show "fst (workerCheckUpdates rt ie f cu) = Inr ()" by simp
  from run show "relayed (snd (workerCheckUpdates rt ie f cu))
      = (''MatterbridgeCheckUpdates'', INFO, ''Starting check updates...'')
          # relayed (snd (checkUpdatesTask rt f cu))
          @ [(''MatterbridgeCheckUpdates'', ERROR, ie ''Failed to check updates'' eb)]"
    by simp
  from run checkUpdatesTask_fails [OF assms fails]
  show "filter at_error_level (relayed (snd (workerCheckUpdates rt ie f cu)))
      = [(''MatterbridgeCheckUpdates'', ERROR, ie ''Failed to check updates'' eb)]"
    by (simp add: at_error_level_def)
  from run show "filter is_exit (posted (snd (workerCheckUpdates rt ie f cu)))
      = (if link_active rt then [Exit (threadId rt) (threadName (the (workerData rt))) False] else [])"
    by simp
next
  assume fails: "fst (systemCheckTask rt inp) = Inl ec"
  note run = workerScript_failure [OF assms keeps_systemCheckTask fails,
      of ie "''MatterbridgeSystemCheck''" "''Starting system check...''"
        "''Failed to perform system check''", folded workerSystemCheck_script]
  from run show "fst (workerSystemCheck rt ie inp) = Inr ()" by simp
  from run show "relayed (snd (workerSystemCheck rt ie inp))
      = (''MatterbridgeSystemCheck'', INFO, ''Starting system check...'')
          # relayed (snd (systemCheckTask rt inp))
          @ [(''MatterbridgeSystemCheck'', ERROR, ie ''Failed to perform system check'' ec)]"
    by simp
  from run show "filter is_exit (posted (snd (workerSystemCheck rt ie inp)))
      = (if link_active rt then [Exit (threadId rt) (threadName (the (workerData rt))) False] else [])"
    by simp
qed


theorem task_failure_contained_witness:
  "link_active (workerThread ''GlobalPrefix'' 1 False)
   \<and> workerData (workerThread ''GlobalPrefix'' 1 False) \<noteq> None
   \<and> fst (globalPrefixTask (workerThread ''GlobalPrefix'' 1 False)
            (Inl (JsError ''getGlobalNodeModules failed'')))
       = Inl (JsError ''getGlobalNodeModules failed'')
   \<and> fst (workerGlobalPrefix (workerThread ''GlobalPrefix'' 1 False) inspected
            (Inl (JsError ''getGlobalNodeModules failed''))) = Inr ()
   \<and> filter at_error_level
        (relayed (snd (workerGlobalPrefix (workerThread ''GlobalPrefix'' 1 False) inspected
                         (Inl (JsError ''getGlobalNodeModules failed'')))))
       = [(''MatterbridgeGlobalPrefix'', ERROR, ''inspected error'')]
   \<and> filter is_exit
        (posted (snd (workerGlobalPrefix (workerThread ''GlobalPrefix'' 1 False) inspected
                        (Inl (JsError ''getGlobalNodeModules failed'')))))
       = [Exit 1 ''GlobalPrefix'' False]"
proof -
  define rt where "rt = workerThread ''GlobalPrefix'' 1 False"
  define g :: "js_error + string" where "g = Inl (JsError ''getGlobalNodeModules failed'')"
  have l: "link_active rt" by (simp add: rt_def workerThread_def link_active_def)
  have w: "workerData rt = Some \<lparr> threadName = ''GlobalPrefix'' \<rparr>"
    by (simp add: rt_def workerThread_def)
  have t: "threadId rt = 1" by (simp add: rt_def workerThread_def)
  have fails: "fst (globalPrefixTask rt g) = Inl (JsError ''getGlobalNodeModules failed'')"
    by (simp add: g_def globalPrefixTask_def prog_defs)
  have wf: "link_active rt \<longrightarrow> workerData rt \<noteq> None" using w by simp
  note c = task_failure_contained [OF wf, where g = g and ie = inspected
        and ea = "JsError ''getGlobalNodeModules failed''", THEN conjunct1, THEN mp, OF fails]
  from c [THEN conjunct1] c [THEN conjunct2, THEN conjunct2, THEN conjunct1]
    c [THEN conjunct2, THEN conjunct2, THEN conjunct2] fails l w t
  have "link_active rt \<and> workerData rt \<noteq> None
     \<and> fst (globalPrefixTask rt g) = Inl (JsError ''getGlobalNodeModules failed'')
     \<and> fst (workerGlobalPrefix rt inspected g) = Inr ()
     \<and> filter at_error_level (relayed (snd (workerGlobalPrefix rt inspected g)))
         = [(''MatterbridgeGlobalPrefix'', ERROR, ''inspected error'')]
     \<and> filter is_exit (posted (snd (workerGlobalPrefix rt inspected g)))
         = [Exit 1 ''GlobalPrefix'' False]"
    by (simp add: inspected_def)
  then show ?thesis unfolding rt_def g_def .
qed

text \<open>
  Claim C2 as stated fails for workerSystemCheck: where \<^verbatim>\<open>NVM\<close> is set and
  \<^verbatim>\<open>os.networkInterfaces()\<close> throws, the task throws after it has relayed one error-level
  finding, and the run has two error-level relay calls.
\<close>

theorem system_check_two_error_logs:
  "fst (systemCheckTask (workerThread ''SystemCheck'' 1 False) brokenNetwork)
     = Inl (JsError ''uv_interface_addresses returned Unknown system error 13'')
   \<and> filter at_error_level
        (relayed (snd (workerSystemCheck (workerThread ''SystemCheck'' 1 False) inspected
                         brokenNetwork)))
       = [(''MatterbridgeSystemCheck'', ERROR,
           ''NVM is a development tool and is not supported in production. Please install node from https://github.com/nodesource/distributions.''),
          (''MatterbridgeSystemCheck'', ERROR, ''inspected error'')]"
proof -
  define rt where "rt = workerThread ''SystemCheck'' 1 False"
  have l: "link_active rt" by (simp add: rt_def workerThread_def link_active_def)
  have w: "workerData rt = Some \<lparr> threadName = ''SystemCheck'' \<rparr>"
    by (simp add: rt_def workerThread_def)
  have wf: "link_active rt \<longrightarrow> workerData rt \<noteq> None" using w by simp
  have fails: "fst (systemCheckTask rt brokenNetwork)
      = Inl (JsError ''uv_interface_addresses returned Unknown system error 13'')"
    by (simp add: systemCheckTask_def brokenNetwork_def truthy_def threadLogger_linked [OF l w]
        prog_defs)
  have calls: "filter at_error_level (relayed (snd (systemCheckTask rt brokenNetwork)))
      = [(''MatterbridgeSystemCheck'', ERROR,
           ''NVM is a development tool and is not supported in production. Please install node from https://github.com/nodesource/distributions.'')]"
    by (simp add: systemCheckTask_def brokenNetwork_def truthy_def threadLogger_linked [OF l w]
        prog_defs at_error_level_def)
  from workerScript_failure [OF wf keeps_systemCheckTask fails,
      of inspected "''MatterbridgeSystemCheck''" "''Starting system check...''"
        "''Failed to perform system check''", folded workerSystemCheck_script] calls
  have "filter at_error_level (relayed (snd (workerSystemCheck rt inspected brokenNetwork)))
      = [(''MatterbridgeSystemCheck'', ERROR,
           ''NVM is a development tool and is not supported in production. Please install node from https://github.com/nodesource/distributions.''),
          (''MatterbridgeSystemCheck'', ERROR, ''inspected error'')]"
    by (simp add: at_error_level_def inspected_def)
  with fails show ?thesis unfolding rt_def by simp
qed

section \<open>Properties of the broadcast bus\<close>

lemmas bus_defs = publish_def fetch_def observe_def elapse_def due_def answers_def

lemma bus_inv_open: "bus_inv open_bus"
  by (simp add: bus_inv_def open_bus_def)

lemma bus_inv_step: "bus_inv b \<Longrightarrow> bus_inv (step b ev)"
  by (cases ev) (auto simp add: bus_inv_def bus_defs Let_def)

lemma bus_inv_run: "bus_inv b \<Longrightarrow> bus_inv (run b evs)"
  by (induction evs arbitrary: b) (simp_all add: bus_inv_step)

lemma finished_step:
  "finished b i \<Longrightarrow> finished (step b ev) i \<and> settled (step b ev) i = settled b i"
  by (cases ev) (auto simp add: finished_def bus_defs Let_def)

lemma finished_run:
  "finished b i \<Longrightarrow> finished (run b evs) i \<and> settled (run b evs) i = settled b i"
proof (induction evs arbitrary: b)
  case Nil
  then show ?case by simp
next
  case (Cons ev evs)
  from finished_step [OF Cons.prems, of ev] Cons.IH [of "step b ev"]
  show ?case by simp
qed

lemma pending_fetch:
  assumes "bus_inv b"
  shows "pending (snd (fetch b e t)) (fst (fetch b e t)) t"
  using assms by (auto simp add: pending_def bus_inv_def bus_defs Let_def)

lemma pending_observe_other:
  "pending b i left \<Longrightarrow> \<not> answers i e \<Longrightarrow> pending (observe b e) i left"
  by (auto simp add: pending_def observe_def)

lemma pending_observe_answer:
  "pending b i left \<Longrightarrow> answers i e \<Longrightarrow>
   finished (observe b e) i \<and> settled (observe b e) i = Some (Resolved e)"
  by (auto simp add: pending_def finished_def observe_def)

lemma pending_elapse_early:
  "pending b i left \<Longrightarrow> d < left \<Longrightarrow> pending (elapse b d) i (left - d)"
  by (auto simp add: pending_def elapse_def due_def)

lemma pending_elapse_late:
  "pending b i left \<Longrightarrow> left \<le> d \<Longrightarrow>
   finished (elapse b d) i \<and> settled (elapse b d) i = Some (Rejected Timeout)"
  by (force simp add: pending_def finished_def elapse_def due_def)

lemma pending_fetch_other:
  "pending b i left \<Longrightarrow> pending (snd (fetch b e t)) i left"
  by (auto simp add: pending_def bus_defs Let_def)

lemma pending_listening: "pending b i left \<Longrightarrow> i \<in> set (listeners b) \<and> settled b i = None"
  by (simp add: pending_def)

lemma finished_silent: "finished b i \<Longrightarrow> i \<notin> set (listeners b)"
  by (simp add: finished_def)

lemma pending_run:
  "pending b i left \<Longrightarrow>
   settled (run b evs) i = verdict i left evs
   \<and> (i \<in> set (listeners (run b evs)) \<longleftrightarrow> verdict i left evs = None)
   \<and> (verdict i left evs \<noteq> None \<longrightarrow> finished (run b evs) i)"
proof (induction evs arbitrary: b left)
  case Nil
  then show ?case by (simp add: pending_listening)
next
  case (Cons ev evs)
  show ?case
  proof (cases ev)
    case (Observe e)
    show ?thesis
    proof (cases "answers i e")
      case True
      from pending_observe_answer [OF Cons.prems True]
      have f: "finished (observe b e) i" and s: "settled (observe b e) i = Some (Resolved e)"
        by simp_all
      from finished_run [OF f, of evs] s True Observe show ?thesis
        by (simp add: finished_silent)
    next
      case False
      from Cons.IH [OF pending_observe_other [OF Cons.prems False]] False Observe
      show ?thesis by simp
    qed
  next
    case (Elapse d)
    show ?thesis
    proof (cases "left \<le> d")
      case True
      from pending_elapse_late [OF Cons.prems True]
      have f: "finished (elapse b d) i" and s: "settled (elapse b d) i = Some (Rejected Timeout)"
        by simp_all
      from finished_run [OF f, of evs] s True Elapse show ?thesis
        by (simp add: finished_silent)
    next
      case False
      then have "d < left" by simp
      from Cons.IH [OF pending_elapse_early [OF Cons.prems this]] False Elapse
      show ?thesis by simp
    qed
  next
    case (Fetch e t)
    from Cons.IH [OF pending_fetch_other [OF Cons.prems, of e t]] Fetch
    show ?thesis by simp
  qed
qed

lemma finished_observe_noop:
  assumes "finished b i" and "eid e = Some i"
  shows "observe b e = b"
proof -
  have l: "filter (\<lambda>j. \<not> answers j e) (listeners b) = listeners b"
    using assms by (auto simp add: finished_def answers_def filter_id_conv)
  have t: "filter (\<lambda>t. \<not> answers (fst t) e) (timers b) = timers b"
    using assms by (auto simp add: finished_def answers_def filter_id_conv)
  have s: "(\<lambda>j. if j \<in> set (listeners b) \<and> answers j e then Some (Resolved e) else settled b j)
             = settled b"
    using assms by (auto simp add: finished_def answers_def)
  show ?thesis by (simp add: observe_def l t s)
qed

text \<open>
  The verdict in words. A call with time to go is pending exactly when no observed envelope
  answered it and less time has passed than it had; it is resolved with \<open>e\<close> exactly when
  \<open>e\<close> was observed, answers it, and the call was pending until then.
\<close>

lemma verdict_pending:
  "0 < left \<Longrightarrow>
   verdict i left evs = None \<longleftrightarrow>
     (\<forall>e. Observe e \<in> set evs \<longrightarrow> \<not> answers i e) \<and> elapsed evs < left"
proof (induction evs arbitrary: left)
  case Nil
  then show ?case by simp
next
  case (Cons ev evs)
  show ?case
  proof (cases ev)
    case (Observe e)
    with Cons show ?thesis by auto
  next
    case (Elapse d)
    show ?thesis
    proof (cases "left \<le> d")
      case True
      with Elapse show ?thesis by simp
    next
      case False
      then have "0 < left - d" by simp
      from Cons.IH [OF this] False Elapse show ?thesis by auto
    qed
  next
    case (Fetch e t)
    with Cons show ?thesis by auto
  qed
qed

lemma verdict_resolved:
  "verdict i left evs = Some (Resolved e) \<longleftrightarrow>
     (\<exists>pre post. evs = pre @ Observe e # post \<and> answers i e \<and> verdict i left pre = None)"
proof (induction i left evs rule: verdict.induct)
  case (1 i left)
  then show ?case by simp
next
  case (2 i left e' evs)
  then show ?case
    by (auto simp add: Cons_eq_append_conv) (metis verdict.simps(2))+
next
  case (3 i left d evs)
  then show ?case
    by (auto simp add: Cons_eq_append_conv) (metis verdict.simps(3))+
next
  case (4 i left e' t evs)
  then show ?case
    by (auto simp add: Cons_eq_append_conv) (metis verdict.simps(4))+
qed

text \<open>
  Claim C1, on the bus of the specification. Take any bus reached from a fresh one, call
  \<^verbatim>\<open>fetch\<close> on it, and let any events follow (other fetches included). The request that was
  published carries the id of the call. The promise of the call is settled exactly as the
  verdict says: resolved with the first observed envelope that carries that id and a result,
  rejected with the timeout error if the time ran out before, pending otherwise. The temporary
  listener is registered exactly while the call is pending; and once the call is settled,
  observing an envelope with the same id leaves the bus as it is.
\<close>

theorem fetch_settles_and_unregisters:
  "let b0 = run open_bus history;
       cid = fst (fetch b0 env timeoutMs);
       b1 = snd (fetch b0 env timeoutMs);
       b = run b1 evs
   in last (outbox b1) = env\<lparr> eid := Some cid \<rparr>
      \<and> settled b cid = verdict cid timeoutMs evs
      \<and> (cid \<in> set (listeners b) \<longleftrightarrow> settled b cid = None)
      \<and> (settled b cid \<noteq> None \<longrightarrow> (\<forall>e. eid e = Some cid \<longrightarrow> observe b e = b))"
proof -
  define b0 :: "'a bus" where "b0 = run open_bus history"
  define cid where "cid = fst (fetch b0 env timeoutMs)"
  define b1 where "b1 = snd (fetch b0 env timeoutMs)"
  define b where "b = run b1 evs"
  have inv: "bus_inv b0" unfolding b0_def by (rule bus_inv_run [OF bus_inv_open])
  have p: "pending b1 cid timeoutMs" unfolding b1_def cid_def by (rule pending_fetch [OF inv])
  note r = pending_run [OF p, of evs, folded b_def]
  have stamped: "last (outbox b1) = env\<lparr> eid := Some cid \<rparr>"
    by (simp add: b1_def cid_def fetch_def publish_def Let_def)
  have settled: "settled b cid = verdict cid timeoutMs evs" using r by simp
  have listening: "cid \<in> set (listeners b) \<longleftrightarrow> settled b cid = None" using r by simp
  have stale: "settled b cid \<noteq> None \<longrightarrow> (\<forall>e. eid e = Some cid \<longrightarrow> observe b e = b)"
  proof (intro impI allI)
    fix e :: "'a envelope"
    assume "settled b cid \<noteq> None" and e: "eid e = Some cid"
    with r have "finished b cid" by simp
    from finished_observe_noop [OF this e] show "observe b e = b" .
  qed
  from stamped settled listening stale show ?thesis
    by (simp add: Let_def b0_def cid_def b1_def b_def)
qed


theorem fetch_settles_and_unregisters_witness:
  "settled (run (snd (fetch open_bus sharedRequest 1000))
             [Elapse 400, Observe (sharedAnswer 7), Observe (sharedAnswer 0)]) 0
     = Some (Resolved (sharedAnswer 0))
   \<and> 0 \<notin> set (listeners (run (snd (fetch open_bus sharedRequest 1000))
                            [Elapse 400, Observe (sharedAnswer 7), Observe (sharedAnswer 0)]))
   \<and> observe (run (snd (fetch open_bus sharedRequest 1000))
                [Elapse 400, Observe (sharedAnswer 7), Observe (sharedAnswer 0)])
        (sharedAnswer 0)
       = run (snd (fetch open_bus sharedRequest 1000))
           [Elapse 400, Observe (sharedAnswer 7), Observe (sharedAnswer 0)]
   \<and> settled (run (snd (fetch open_bus sharedRequest 1000))
               [Elapse 1000, Observe (sharedAnswer 0)]) 0
       = Some (Rejected Timeout)"
proof -
  define evs :: "string event list"
    where "evs = [Elapse 400, Observe (sharedAnswer 7), Observe (sharedAnswer 0)]"
  define late :: "string event list" where "late = [Elapse 1000, Observe (sharedAnswer 0)]"
  define b where "b = run (snd (fetch open_bus sharedRequest 1000)) evs"
  have cid: "fst (fetch (run open_bus []) sharedRequest 1000) = 0"
    by (simp add: fetch_def open_bus_def Let_def)
  have v: "verdict 0 1000 evs = Some (Resolved (sharedAnswer 0))"
    by (simp add: evs_def answers_def sharedAnswer_def)
  have v': "verdict 0 1000 late = Some (Rejected Timeout)"
    by (simp add: late_def)
  have e: "eid (sharedAnswer 0) = Some 0" by (simp add: sharedAnswer_def)
  note t = fetch_settles_and_unregisters [of "[]" sharedRequest 1000 evs, unfolded Let_def cid,
      simplified, folded b_def]
  note t' = fetch_settles_and_unregisters [of "[]" sharedRequest 1000 late, unfolded Let_def cid,
      simplified]
  from t v have s: "settled b 0 = Some (Resolved (sharedAnswer 0))" by simp
  from t s have l: "0 \<notin> set (listeners b)" by simp
  from t s e have o: "observe b (sharedAnswer 0) = b" by simp
  from t' v' have s': "settled (run (snd (fetch open_bus sharedRequest 1000)) late) 0
      = Some (Rejected Timeout)" by simp
  from s l o s' show ?thesis unfolding b_def evs_def late_def by simp
qed

text \<open>
  Claim C8, on the bus of the specification. \<^verbatim>\<open>respond\<close> publishes exactly one envelope; it
  has the type and the id of the request, the destination of the request as its source and the
  source of the request as its destination, and it carries the given result and the given
  success flag.
\<close>

theorem respond_swaps_endpoints:
  "outbox (respond b requestEnvelope res ok)
     = outbox b @ [last (outbox (respond b requestEnvelope res ok))]
   \<and> etype (last (outbox (respond b requestEnvelope res ok))) = etype requestEnvelope
   \<and> eid (last (outbox (respond b requestEnvelope res ok))) = eid requestEnvelope
   \<and> src (last (outbox (respond b requestEnvelope res ok))) = dst requestEnvelope
   \<and> dst (last (outbox (respond b requestEnvelope res ok))) = src requestEnvelope
   \<and> result (last (outbox (respond b requestEnvelope res ok))) = Some res
   \<and> success (last (outbox (respond b requestEnvelope res ok))) = ok"
  by (simp add: respond_def publish_def)

text \<open>
  Hence an answer made with \<^verbatim>\<open>respond\<close> from the request that a fetch published answers
  that fetch.
\<close>

lemma respond_answers_fetch:
  "answers (fst (fetch b env t))
     (last (outbox (respond b' (last (outbox (snd (fetch b env t)))) res ok)))"
  by (simp add: respond_def publish_def fetch_def answers_def Let_def)

end
